theory Spec2Isabelle
  imports Main "HOL-Library.AList"
begin

section \<open>Data model (grammar.ts, result.ts)\<close>

text \<open>
  A \<open>Location\<close> is the half-open range \<open>{start, end}\<close> of the source; the field
  \<open>end\<close> is written \<open>end'\<close> here. A token is a type name and a location. Token and
  node type names (\<open>PropertyKey\<close> in the source) are strings; offsets and indexes are
  natural numbers, as the lexer and the combinators only ever produce those. A string
  is a list of 8-bit characters: the strings of the source whose code units are all
  below 256.
\<close>

record Location =
  start :: nat
  end' :: nat

record Token =
  type :: string
  location :: Location

text \<open>
  The combinators are polymorphic in the value they produce and build their values
  dynamically (\<open>null\<close>, tokens, strings, arrays, records by \<open>struct\<close>, AST nodes by
  \<open>node\<close>); the model has one type of values. An object is the list of its properties,
  an AST node is its type, its properties and its token locations.
\<close>

datatype Value =
    Null
  | TokenV Token
  | Str string
  | Arr "Value list"
  | Obj "(string \<times> Value) list"
  | AstNode string Value "Location list"

text \<open>\<open>Result<T, E>\<close> of result.ts.\<close>

datatype ('a, 'e) Result = Success 'a | Error 'e

text \<open>
  A call of the source either returns or throws; \<open>Throws\<close> is the exception leaving
  the call. The exceptions of the modelled code are the \<open>TypeError\<close> of the
  JavaScript runtime (calling or reading a property of \<open>undefined\<close>), the
  \<open>RangeError\<close> of \<open>push\<close> on an array that cannot grow, and the \<open>SyntaxError\<close>
  thrown by the grammar frontend.
\<close>

datatype JSError = TypeError | RangeError | SyntaxError string

datatype 'r Completion = Returns 'r | Throws JSError

record ParserRuleInputState =
  input :: "Token list"
  source :: string
  currentIndex :: nat

text \<open>
  \<open>ParserRuleOutputState\<close> extends the input state by \<open>value\<close> (here \<open>val\<close>) and
  \<open>tokens\<close>. Where the source passes an output state on as the next input state,
  the model projects it with \<open>toInput\<close>.
\<close>

record ParserRuleOutputState = ParserRuleInputState +
  val :: Value
  tokens :: "Token list"

definition toInput :: "ParserRuleOutputState \<Rightarrow> ParserRuleInputState" where
  "toInput s = \<lparr>input = input s, source = source s, currentIndex = currentIndex s\<rparr>"

text \<open>
  The two error classes. \<open>ParserRuleError message location\<close> and
  \<open>ParseError message source location\<close> stand for the objects made by \<open>new\<close> with
  these arguments. The \<open>message\<close> property of a \<open>ParseError\<close> object is the rendering
  \<open>formatErrorMessage message source location\<close> (see \<open>error_message\<close> below).
\<close>

datatype ParserError =
    ParserRuleError string Location
  | ParseError string string Location

fun error_location :: "ParserError \<Rightarrow> Location" where
  "error_location (ParserRuleError message loc) = loc"
| "error_location (ParseError message src loc) = loc"

record ParserRuleHelpers =
  eof :: Location
  readToken :: "nat \<Rightarrow> Token option"
  isTokenType :: "Token \<Rightarrow> string \<Rightarrow> bool"
  getTokenSource :: "Token \<Rightarrow> string"

type_synonym ParserRuleResult = "(ParserRuleOutputState, ParserError) Result"

text \<open>
  A parser rule is a function of the input state and the helpers. Its result is
  \<open>None\<close> when the call does not return at all, \<open>Some (Throws x)\<close> when it throws and
  \<open>Some (Returns r)\<close> when it returns the result \<open>r\<close>.
\<close>

type_synonym ParserRule =
  "ParserRuleInputState \<Rightarrow> ParserRuleHelpers \<Rightarrow> ParserRuleResult Completion option"

section \<open>Error rendering (parser.ts)\<close>

text \<open>\<open>String(n)\<close> for an integer.\<close>

fun digits_of_nat :: "nat \<Rightarrow> string" where
  "digits_of_nat n =
     (if n < 10 then [char_of (48 + n)]
      else digits_of_nat (n div 10) @ [char_of (48 + n mod 10)])"

definition String_of_int :: "int \<Rightarrow> string" where
  "String_of_int i = (if i < 0 then CHR ''-'' # digits_of_nat (nat (- i)) else digits_of_nat (nat i))"

record SourceLocation =
  line :: int
  column :: int

record SourceSpan =
  span_start :: SourceLocation
  span_end :: SourceLocation

text \<open>
  The indexes of the matches of \<open>/\<bsol>r?\<bsol>n/g\<close> in the source, left to right: a carriage
  return followed by a line feed is one match that starts at the carriage return.
\<close>

fun lineBreakIndexes :: "string \<Rightarrow> nat \<Rightarrow> nat list" where
  "lineBreakIndexes [] i = []"
| "lineBreakIndexes [c] i = (if c = CHR 0x0A then [i] else [])"
| "lineBreakIndexes (c # d # cs) i =
     (if c = CHR 0x0D \<and> d = CHR 0x0A then i # lineBreakIndexes cs (i + 2)
      else if c = CHR 0x0A then i # lineBreakIndexes (d # cs) (i + 1)
      else lineBreakIndexes (d # cs) (i + 1))"

text \<open>
  \<open>findSourceLineOffsets\<close>: the range of every line. The source adds \<open>match.length\<close>
  to the index of a line break to get the start of the next line; \<open>match\<close> is the match
  array of a pattern without groups, so \<open>match.length\<close> is 1.
\<close>

definition findSourceLineOffsets :: "string \<Rightarrow> Location list" where
  "findSourceLineOffsets src =
     (let matches = lineBreakIndexes src 0 in
      \<lparr>start = 0, end' = (if 0 < length matches then matches ! 0 else length src)\<rparr> #
      map (\<lambda>index.
             \<lparr>start = matches ! index + 1,
              end' = (if index + 1 < length matches then matches ! (index + 1) else length src)\<rparr>)
          [0 ..< length matches])"

fun findIndex :: "('a \<Rightarrow> bool) \<Rightarrow> 'a list \<Rightarrow> nat option" where
  "findIndex p [] = None"
| "findIndex p (x # xs) = (if p x then Some 0 else map_option Suc (findIndex p xs))"

definition getLineIndex :: "Location list \<Rightarrow> nat \<Rightarrow> nat option" where
  "getLineIndex lineOffsets offset =
     (if offset > end' (last lineOffsets) then None
      else findIndex (\<lambda>lineOffset. offset \<ge> start lineOffset \<and> offset \<le> end' lineOffset) lineOffsets)"

definition getSourceLocation :: "Location list \<Rightarrow> nat \<Rightarrow> nat \<Rightarrow> SourceLocation" where
  "getSourceLocation lineOffsets lineIndex offset =
     (let lineOffset = start (lineOffsets ! lineIndex);
          columnOffset = int offset - int lineOffset
      in \<lparr>line = 1 + int lineIndex, column = 1 + columnOffset\<rparr>)"

definition findSourceLocation :: "string \<Rightarrow> nat \<Rightarrow> SourceLocation option" where
  "findSourceLocation src offset =
     (if offset \<le> 0 then Some \<lparr>line = 1, column = 1\<rparr>
      else
        let lineOffsets = findSourceLineOffsets src in
        case getLineIndex lineOffsets offset of
          None \<Rightarrow> Some (getSourceLocation lineOffsets (length lineOffsets - 1) (length src))
        | Some lineIndex \<Rightarrow> Some (getSourceLocation lineOffsets lineIndex offset))"

definition findSourceSpan :: "string \<Rightarrow> Location \<Rightarrow> SourceSpan option" where
  "findSourceSpan src loc =
     (case (findSourceLocation src (start loc), findSourceLocation src (end' loc)) of
        (Some s, Some e) \<Rightarrow> Some \<lparr>span_start = s, span_end = e\<rparr>
      | (Some s, None) \<Rightarrow> Some \<lparr>span_start = s, span_end = s\<rparr>
      | (None, Some e) \<Rightarrow> Some \<lparr>span_start = e, span_end = e\<rparr>
      | (None, None) \<Rightarrow> None)"

definition formatSourceMarker :: "Location \<Rightarrow> Location \<Rightarrow> string" where
  "formatSourceMarker lineRange loc =
     (let numLeadingSpaces = max 0 (int (start loc) - int (start lineRange));
          numTrailingSpaces = max 0 (int (end' lineRange) - int (end' loc));
          lineLength = int (end' lineRange) - int (start lineRange);
          numMarkers = max 1 (lineLength - numLeadingSpaces - numTrailingSpaces)
      in replicate (nat numLeadingSpaces) CHR '' '' @ replicate (nat numMarkers) CHR ''^'')"

text \<open>\<open>s.slice(a, b)\<close> and \<open>s.padStart(n, ' ')\<close> of JavaScript strings.\<close>

definition slice :: "'a list \<Rightarrow> nat \<Rightarrow> nat \<Rightarrow> 'a list" where
  "slice s a b = take (b - a) (drop a s)"

definition padStart :: "string \<Rightarrow> nat \<Rightarrow> string" where
  "padStart s n = replicate (n - length s) CHR '' '' @ s"

fun join :: "string \<Rightarrow> string list \<Rightarrow> string" where
  "join sep [] = []"
| "join sep [x] = x"
| "join sep (x # y # ys) = x @ sep @ join sep (y # ys)"

definition formatSourceSnippet :: "string \<Rightarrow> Location \<Rightarrow> string option" where
  "formatSourceSnippet src loc =
     (let lineOffsets = findSourceLineOffsets src in
      case (getLineIndex lineOffsets (start loc), getLineIndex lineOffsets (end' loc)) of
        (Some startLineIndex, Some endLineIndex) \<Rightarrow>
          let sourceLines =
                map (\<lambda>index. (startLineIndex + index, slice lineOffsets startLineIndex (endLineIndex + 1) ! index))
                    [0 ..< length (slice lineOffsets startLineIndex (endLineIndex + 1))];
              lineNumberWidth = length (String_of_int (int endLineIndex + 1))
          in Some (join [CHR 0x0A]
               (map (\<lambda>(lineIndex, lineRange).
                       let lineNumber = padStart (String_of_int (int lineIndex + 1)) lineNumberWidth;
                           gutterMarker = lineNumber @ '' |'';
                           gutterWidth = length gutterMarker
                       in gutterMarker @ slice src (start lineRange) (end' lineRange) @ [CHR 0x0A] @
                          replicate gutterWidth CHR '' '' @ formatSourceMarker lineRange loc)
                    sourceLines))
      | _ \<Rightarrow> None)"

definition formatErrorMessage :: "string \<Rightarrow> string \<Rightarrow> Location \<Rightarrow> string" where
  "formatErrorMessage message src loc =
     message @
     (case findSourceSpan src loc of
        Some sourceSpan \<Rightarrow>
          '' at ['' @ String_of_int (line (span_start sourceSpan)) @ '':'' @
          String_of_int (column (span_start sourceSpan)) @ '']''
      | None \<Rightarrow> '''') @
     (case formatSourceSnippet src loc of
        Some sourceSnippet \<Rightarrow> (if sourceSnippet = [] then [] else CHR 0x0A # sourceSnippet)
      | None \<Rightarrow> [])"

text \<open>The \<open>message\<close> property of an error object.\<close>

fun error_message :: "ParserError \<Rightarrow> string" where
  "error_message (ParserRuleError message loc) = message"
| "error_message (ParseError message src loc) = formatErrorMessage message src loc"

section \<open>Combinators (combinators/*.ts)\<close>

text \<open>The spread \<open>{...state, value, tokens}\<close> of an input state.\<close>

definition withValue :: "ParserRuleInputState \<Rightarrow> Value \<Rightarrow> Token list \<Rightarrow> ParserRuleOutputState" where
  "withValue state v ts =
     \<lparr>input = input state, source = source state, currentIndex = currentIndex state,
      val = v, tokens = ts\<rparr>"

subsection \<open>token, empty, eof\<close>

definition token :: "string \<Rightarrow> ParserRule" where
  "token type' = (\<lambda>state helpers.
     case readToken helpers (currentIndex state) of
       None \<Rightarrow>
         Some (Returns (Error (ParserRuleError (''Expected token: '' @ type') (eof helpers))))
     | Some tok \<Rightarrow>
         if \<not> isTokenType helpers tok type'
         then Some (Returns (Error (ParserRuleError (''Expected token: '' @ type') (location tok))))
         else Some (Returns (Success
                ((withValue state (TokenV tok) [tok])\<lparr>currentIndex := currentIndex state + 1\<rparr>))))"

definition empty_rule :: ParserRule where
  "empty_rule = (\<lambda>state helpers. Some (Returns (Success (withValue state Null []))))"

definition eof_rule :: ParserRule where
  "eof_rule = (\<lambda>state helpers.
     case readToken helpers (currentIndex state) of
       Some tok \<Rightarrow>
         Some (Returns (Error (ParseError ''Expected end of input'' (source state) (location tok))))
     | None \<Rightarrow> Some (Returns (Success (withValue state Null []))))"

subsection \<open>optional\<close>

definition optional :: "ParserRule \<Rightarrow> ParserRule" where
  "optional rule = (\<lambda>state helpers.
     case rule state helpers of
       None \<Rightarrow> None
     | Some (Throws x) \<Rightarrow> Some (Throws x)
     | Some (Returns (Success resultState)) \<Rightarrow> Some (Returns (Success resultState))
     | Some (Returns (Error e)) \<Rightarrow> Some (Returns (Success (withValue state Null []))))"

subsection \<open>sequence\<close>

text \<open>
  The \<open>for\<close> loop of \<open>sequence\<close> over the remaining rules, with the current state and
  the values and tokens collected so far.
\<close>

fun sequence_loop ::
  "ParserRule list \<Rightarrow> ParserRuleHelpers \<Rightarrow> ParserRuleInputState \<Rightarrow> Value list \<Rightarrow> Token list
   \<Rightarrow> ParserRuleResult Completion option" where
  "sequence_loop [] helpers currentState values toks =
     Some (Returns (Success (withValue currentState (Arr values) toks)))"
| "sequence_loop (rule # rules) helpers currentState values toks =
     (case rule currentState helpers of
        None \<Rightarrow> None
      | Some (Throws x) \<Rightarrow> Some (Throws x)
      | Some (Returns (Error e)) \<Rightarrow> Some (Returns (Error e))
      | Some (Returns (Success resultState)) \<Rightarrow>
          sequence_loop rules helpers (toInput resultState)
            (values @ [val resultState]) (toks @ tokens resultState))"

definition sequence :: "ParserRule list \<Rightarrow> ParserRule" where
  "sequence rules = (\<lambda>state helpers. sequence_loop rules helpers state [] [])"

subsection \<open>choice\<close>

text \<open>
  The \<open>for\<close> loop of \<open>choice\<close> over the remaining rules; \<open>currentError\<close> is the best
  error so far with the start of its location, or \<open>None\<close> for \<open>null\<close>.
\<close>

fun choice_loop ::
  "ParserRule list \<Rightarrow> ParserRuleInputState \<Rightarrow> ParserRuleHelpers \<Rightarrow> (ParserError \<times> nat) option
   \<Rightarrow> ParserRuleResult Completion option" where
  "choice_loop [] state helpers currentError =
     (case currentError of
        None \<Rightarrow>
          Some (Returns (Error (ParserRuleError ''No choices available''
            (case readToken helpers (currentIndex state) of
               Some currentToken \<Rightarrow> location currentToken
             | None \<Rightarrow> eof helpers))))
      | Some (error, index) \<Rightarrow> Some (Returns (Error error)))"
| "choice_loop (rule # rules) state helpers currentError =
     (case rule state helpers of
        None \<Rightarrow> None
      | Some (Throws x) \<Rightarrow> Some (Throws x)
      | Some (Returns (Success resultState)) \<Rightarrow> Some (Returns (Success resultState))
      | Some (Returns (Error e)) \<Rightarrow>
          (let errorLocation = start (error_location e) in
           case currentError of
             None \<Rightarrow> choice_loop rules state helpers (Some (e, errorLocation))
           | Some (error, index) \<Rightarrow>
               if errorLocation > index
               then choice_loop rules state helpers (Some (e, errorLocation))
               else choice_loop rules state helpers (Some (error, index))))"

definition choice :: "ParserRule list \<Rightarrow> ParserRule" where
  "choice rules = (\<lambda>state helpers. choice_loop rules state helpers None)"

subsection \<open>zeroOrMore, oneOrMore\<close>

text \<open>
  The \<open>while (true)\<close> loops. An array has at most \<open>2^32 - 1\<close> elements, and
  \<open>values.push\<close> on an array of that length throws a \<open>RangeError\<close> (an engine with
  a smaller limit throws it earlier). Each loop is written as a partial function, with
  the result \<open>None\<close> where a call of the rule does not return; the lemmas
  \<open>zeroOrMore_loop_returns\<close> and \<open>oneOrMore_loop_returns\<close> show that it has a result
  whenever the calls of the rule return.
\<close>

definition arrayLengthLimit :: nat where
  "arrayLengthLimit = 2 ^ 32 - 1"

partial_function (option) zeroOrMore_loop ::
  "ParserRule \<Rightarrow> ParserRuleHelpers \<Rightarrow> ParserRuleOutputState \<Rightarrow> Value list
   \<Rightarrow> ParserRuleResult Completion option" where
  "zeroOrMore_loop rule helpers currentState values =
     (case rule (toInput currentState) helpers of
        None \<Rightarrow> None
      | Some (Throws x) \<Rightarrow> Some (Throws x)
      | Some (Returns (Error e)) \<Rightarrow>
          Some (Returns (Success (currentState\<lparr>val := Arr values\<rparr>)))
      | Some (Returns (Success resultState)) \<Rightarrow>
          if currentIndex resultState = currentIndex currentState
          then Some (Returns (Success (currentState\<lparr>val := Arr values\<rparr>)))
          else if arrayLengthLimit \<le> length values
          then Some (Throws RangeError)
          else zeroOrMore_loop rule helpers
                 (resultState\<lparr>tokens := tokens currentState @ tokens resultState\<rparr>)
                 (values @ [val resultState]))"

declare zeroOrMore_loop.simps [code]

definition zeroOrMore :: "ParserRule \<Rightarrow> ParserRule" where
  "zeroOrMore rule = (\<lambda>state helpers. zeroOrMore_loop rule helpers (withValue state Null []) [])"

partial_function (option) oneOrMore_loop ::
  "ParserRule \<Rightarrow> ParserRuleHelpers \<Rightarrow> ParserRuleOutputState \<Rightarrow> Value list
   \<Rightarrow> ParserRuleResult Completion option" where
  "oneOrMore_loop rule helpers currentState values =
     (case rule (toInput currentState) helpers of
        None \<Rightarrow> None
      | Some (Throws x) \<Rightarrow> Some (Throws x)
      | Some (Returns (Error e)) \<Rightarrow>
          Some (Returns (Success (currentState\<lparr>val := Arr values\<rparr>)))
      | Some (Returns (Success resultState)) \<Rightarrow>
          if currentIndex resultState = currentIndex currentState
          then Some (Returns (Success (currentState\<lparr>val := Arr values\<rparr>)))
          else if arrayLengthLimit \<le> length values
          then Some (Throws RangeError)
          else oneOrMore_loop rule helpers
                 (resultState\<lparr>tokens := tokens currentState @ tokens resultState\<rparr>)
                 (values @ [val resultState]))"

declare oneOrMore_loop.simps [code]

definition oneOrMore :: "ParserRule \<Rightarrow> ParserRule" where
  "oneOrMore rule = (\<lambda>state helpers.
     let startIndex = currentIndex state in
     case rule state helpers of
       None \<Rightarrow> None
     | Some (Throws x) \<Rightarrow> Some (Throws x)
     | Some (Returns (Error e)) \<Rightarrow> Some (Returns (Error e))
     | Some (Returns (Success firstResultState)) \<Rightarrow>
         if currentIndex firstResultState = startIndex
         then Some (Returns (Success (firstResultState\<lparr>val := Arr [val firstResultState]\<rparr>)))
         else oneOrMore_loop rule helpers (firstResultState\<lparr>val := Null\<rparr>)
                [val firstResultState])"

subsection \<open>map, text, node\<close>

text \<open>The transform of \<open>map\<close> is a function of the value, as its type says.\<close>

definition map_rule :: "ParserRule \<Rightarrow> (Value \<Rightarrow> Value) \<Rightarrow> ParserRule" where
  "map_rule rule transform = (\<lambda>state helpers.
     case rule state helpers of
       None \<Rightarrow> None
     | Some (Throws x) \<Rightarrow> Some (Throws x)
     | Some (Returns (Error e)) \<Rightarrow> Some (Returns (Error e))
     | Some (Returns (Success resultState)) \<Rightarrow>
         Some (Returns (Success (resultState\<lparr>val := transform (val resultState)\<rparr>))))"

definition text_rule :: "ParserRule \<Rightarrow> ParserRule" where
  "text_rule rule = (\<lambda>state helpers.
     case rule state helpers of
       None \<Rightarrow> None
     | Some (Throws x) \<Rightarrow> Some (Throws x)
     | Some (Returns (Error e)) \<Rightarrow> Some (Returns (Error e))
     | Some (Returns (Success resultState)) \<Rightarrow>
         (let src = concat (map (getTokenSource helpers) (tokens resultState))
          in Some (Returns (Success (resultState\<lparr>val := Str src\<rparr>)))))"

definition node :: "string \<Rightarrow> ParserRule \<Rightarrow> ParserRule" where
  "node type' propertiesRule = (\<lambda>state helpers.
     case propertiesRule state helpers of
       None \<Rightarrow> None
     | Some (Throws x) \<Rightarrow> Some (Throws x)
     | Some (Returns (Error e)) \<Rightarrow> Some (Returns (Error e))
     | Some (Returns (Success resultState)) \<Rightarrow>
         Some (Returns (Success
           (resultState\<lparr>val := AstNode type' (val resultState) (map location (tokens resultState))\<rparr>))))"

subsection \<open>struct\<close>

text \<open>
  A field descriptor is a key (\<open>None\<close> for \<open>null\<close>) and a rule. \<open>struct\<close> maps the
  array of the sequence of the fields' rules to a record: the loop assigns
  \<open>fieldValues[field.key] = values[i]\<close> for every field with a key.
\<close>

type_synonym StructFieldDescriptor = "string option \<times> ParserRule"

definition field :: "string option \<Rightarrow> ParserRule \<Rightarrow> StructFieldDescriptor" where
  "field key rule = (key, rule)"

fun struct_loop :: "string option list \<Rightarrow> Value list \<Rightarrow> (string \<times> Value) list \<Rightarrow> (string \<times> Value) list" where
  "struct_loop (None # keys) (v # values) fieldValues = struct_loop keys values fieldValues"
| "struct_loop (Some key # keys) (v # values) fieldValues =
     struct_loop keys values (AList.update key v fieldValues)"
| "struct_loop keys values fieldValues = fieldValues"

definition struct :: "StructFieldDescriptor list \<Rightarrow> ParserRule" where
  "struct fields' =
     map_rule (sequence (map snd fields'))
       (\<lambda>values. case values of
                    Arr vs \<Rightarrow> Obj (struct_loop (map fst fields') vs [])
                  | _ \<Rightarrow> Obj [])"

subsection \<open>list\<close>

text \<open>
  \<open>repeat(value, minLength)\<close> is an array of \<open>minLength - 1\<close> copies.
  \<open>combineListResults\<close> takes the array of the sequence: all elements but the last are
  items, the last is the array of the remaining items.
\<close>

definition repeat :: "'a \<Rightarrow> int \<Rightarrow> 'a list" where
  "repeat v minLength = replicate (nat (minLength - 1)) v"

definition combineListResults :: "Value \<Rightarrow> Value" where
  "combineListResults result =
     (case result of
        Arr vs \<Rightarrow>
          (let headItems = slice vs 0 (length vs - 1) in
           case last vs of Arr restItems \<Rightarrow> Arr (headItems @ restItems) | _ \<Rightarrow> Arr headItems)
      | _ \<Rightarrow> Arr [])"

definition tailItem :: "ParserRule \<Rightarrow> ParserRule \<Rightarrow> ParserRule" where
  "tailItem item separator =
     map_rule (sequence [separator, item])
       (\<lambda>v. case v of Arr [_, x] \<Rightarrow> x | _ \<Rightarrow> Null)"

function createListMatcher :: "ParserRule \<Rightarrow> ParserRule \<Rightarrow> int \<Rightarrow> ParserRule" where
  "createListMatcher item separator minLength =
     (if minLength \<le> 0
      then map_rule (optional (createListMatcher item separator 1))
             (\<lambda>values. case values of Null \<Rightarrow> Arr [] | v \<Rightarrow> v)
      else map_rule
             (sequence (item # repeat (tailItem item separator) minLength @
                        [zeroOrMore (tailItem item separator)]))
             combineListResults)"
  by pat_completeness auto
termination
  by (relation "measure (\<lambda>(item, separator, minLength). if minLength \<le> 0 then 1 else 0)") auto

definition list_rule :: "ParserRule \<Rightarrow> ParserRule \<Rightarrow> int option \<Rightarrow> ParserRule" where
  "list_rule item separator options =
     createListMatcher item separator (case options of None \<Rightarrow> 0 | Some minLength \<Rightarrow> minLength)"

declare createListMatcher.simps [simp del]

section \<open>Lexer (grammar.ts, parser.ts)\<close>

text \<open>
  The regular expression engine is JavaScript's. A regular expression is taken as what
  the lexer uses of it: its sticky match at an index of the input, which is the end of the
  match (the \<open>lastIndex\<close> after a successful \<open>test\<close>) or \<open>None\<close>. A string pattern is
  compiled by \<open>escapeRegExpSource\<close> to the expression that matches exactly its text.
\<close>

type_synonym RegExp = "string \<Rightarrow> nat \<Rightarrow> nat option"

definition literalRegExp :: "string \<Rightarrow> RegExp" where
  "literalRegExp pattern = (\<lambda>inp index.
     if slice inp index (index + length pattern) = pattern
     then Some (index + length pattern) else None)"

text \<open>
  A token parser takes the input and the current index and gives the next index, or
  \<open>None\<close> for \<open>null\<close>. (The parsers of \<open>createTokenParser\<close> write the next index into
  the state they are given and return that state; the lexer reads the index back from the
  result.)
\<close>

type_synonym TokenParser = "string \<Rightarrow> nat \<Rightarrow> nat option"

datatype TokenPattern = StringPattern string | RegExpPattern RegExp | CustomParser TokenParser

definition createTokenParser :: "TokenPattern \<Rightarrow> TokenParser" where
  "createTokenParser pattern =
     (let regex = (case pattern of
                     StringPattern p \<Rightarrow> literalRegExp p
                   | RegExpPattern r \<Rightarrow> r
                   | CustomParser r \<Rightarrow> r)
      in (\<lambda>inp curIndex.
            case regex inp curIndex of
              None \<Rightarrow> None
            | Some lastIndex \<Rightarrow> Some lastIndex))"

text \<open>
  A grammar: the token parsers and the rules. \<open>tokenTypes\<close> lists the token parsers
  in the order that \<open>Reflect.ownKeys\<close> gives for the object of the source (see
  \<open>ownKeyOrder\<close> below: the order of declaration, for names that are not array
  indexes); the rules are only ever looked up by name.
\<close>

record Grammar =
  tokenTypes :: "(string \<times> TokenParser) list"
  rules :: "(string \<times> ParserRule) list"

text \<open>
  The inner \<open>for\<close> loop of \<open>tokenize\<close>: the first token parser, in order, that does
  not return \<open>null\<close>, with its next index.
\<close>

fun tryTokenParsers :: "(string \<times> TokenParser) list \<Rightarrow> string \<Rightarrow> nat \<Rightarrow> (string \<times> nat) option" where
  "tryTokenParsers [] inp curIndex = None"
| "tryTokenParsers ((tokenType, tokenParser) # tokenParsers) inp curIndex =
     (case tokenParser inp curIndex of
        None \<Rightarrow> tryTokenParsers tokenParsers inp curIndex
      | Some nextIndex \<Rightarrow> Some (tokenType, nextIndex))"

text \<open>
  The outer \<open>while\<close> loop of \<open>tokenize\<close>, on the lexer state. It is a partial
  function: it has no result (\<open>None\<close>) where a token parser accepts an empty match
  and the lexer stays at its index, adding the same token again and again (the source
  then returns no tokens either: it goes on until the engine stops it).
\<close>

partial_function (option) tokenize_loop ::
  "(string \<times> TokenParser) list \<Rightarrow> string \<Rightarrow> Token list \<Rightarrow> nat
   \<Rightarrow> (Token list, ParserError) Result option" where
  "tokenize_loop tokenParsers inp toks curIndex =
     (if curIndex < length inp then
        (case tryTokenParsers tokenParsers inp curIndex of
           Some (tokenType, nextIndex) \<Rightarrow>
             tokenize_loop tokenParsers inp
               (toks @ [\<lparr>type = tokenType, location = \<lparr>start = curIndex, end' = nextIndex\<rparr>\<rparr>])
               nextIndex
         | None \<Rightarrow>
             Some (Error (ParseError ''Unrecognized token'' inp
                     \<lparr>start = curIndex, end' = curIndex + 1\<rparr>)))
      else Some (Success toks))"

declare tokenize_loop.simps [code]

definition tokenize :: "Grammar \<Rightarrow> string \<Rightarrow> (Token list, ParserError) Result option" where
  "tokenize grammar inp = tokenize_loop (tokenTypes grammar) inp [] 0"

section \<open>Evaluator driver (parser.ts)\<close>

text \<open>The helpers object that \<open>Parser.parse\<close> builds for its input and source.\<close>

definition parserHelpers :: "Token list \<Rightarrow> string \<Rightarrow> ParserRuleHelpers" where
  "parserHelpers inp src =
     \<lparr>eof = \<lparr>start = length src, end' = length src\<rparr>,
      readToken = (\<lambda>index. if index \<ge> length inp then None else Some (inp ! index)),
      isTokenType = (\<lambda>tok type'. type tok = type'),
      getTokenSource = (\<lambda>tok. slice src (start (location tok)) (end' (location tok)))\<rparr>"

text \<open>
  \<open>Parser.parse\<close>. Calling a rule that the grammar does not have, and reading the
  location of a token beyond the end of the input, throw a \<open>TypeError\<close>.
\<close>

definition Parser_parse ::
  "Grammar \<Rightarrow> Token list \<Rightarrow> string \<Rightarrow> string \<Rightarrow> (Value, ParserError) Result Completion option" where
  "Parser_parse grammar inp src rootNodeType =
     (let state = \<lparr>input = inp, source = src, currentIndex = 0\<rparr>;
          helpers = parserHelpers inp src
      in case map_of (rules grammar) rootNodeType of
           None \<Rightarrow> Some (Throws TypeError)
         | Some parser \<Rightarrow>
             (case parser state helpers of
                None \<Rightarrow> None
              | Some (Throws x) \<Rightarrow> Some (Throws x)
              | Some (Returns (Error e)) \<Rightarrow>
                  Some (Returns (Error (ParseError (error_message e) src (error_location e))))
              | Some (Returns (Success resultState)) \<Rightarrow>
                  if currentIndex resultState \<noteq> length inp then
                    (if currentIndex resultState < length inp
                     then Some (Returns (Error (ParseError ''Expected end of input'' src
                                  (location (inp ! currentIndex resultState)))))
                     else Some (Throws TypeError))
                  else Some (Returns (Success (val resultState)))))"

definition parse :: "string \<Rightarrow> Grammar \<Rightarrow> string \<Rightarrow> (Value, ParserError) Result Completion option" where
  "parse inp grammar rootNodeType =
     (case tokenize grammar inp of
        None \<Rightarrow> None
      | Some (Error e) \<Rightarrow> Some (Returns (Error e))
      | Some (Success toks) \<Rightarrow> Parser_parse grammar toks inp rootNodeType)"

section \<open>Grammar assembly (grammar.ts)\<close>

text \<open>
  A rule factory takes the rules handle, an object of rules. Reading a property that
  the handle does not have gives \<open>undefined\<close>, and calling \<open>undefined\<close> as a rule
  throws a \<open>TypeError\<close>: \<open>getRule\<close> is the property read, with \<open>undefined\<close> taken as
  the rule that throws when it is called.
\<close>

type_synonym RuleTable = "(string \<times> ParserRule) list"

type_synonym ParserRuleFactory = "RuleTable \<Rightarrow> ParserRule"

definition getRule :: "RuleTable \<Rightarrow> string \<Rightarrow> ParserRule" where
  "getRule table key =
     (case map_of table key of
        Some rule \<Rightarrow> rule
      | None \<Rightarrow> (\<lambda>state helpers. Some (Throws TypeError)))"

definition createLazyRuleAccessor :: "RuleTable \<Rightarrow> string \<Rightarrow> ParserRule" where
  "createLazyRuleAccessor ruleInstances key = (\<lambda>state helpers.
     getRule ruleInstances key state helpers)"

text \<open>
  \<open>createLazyRuleAccessors\<close> ties a knot: the accessors read the table of rule
  instances, and the instances are made by the factories from the accessors. The model
  unfolds the knot \<open>n\<close> times: \<open>ruleInstances n\<close> is the table in which a rule may look
  itself or another rule up through an accessor to the depth \<open>n\<close>, and a call that needs
  a deeper look-up has no result (\<open>None\<close>). The keys of the handle do not depend on \<open>n\<close>.
\<close>

fun ruleInstances :: "nat \<Rightarrow> (string \<times> ParserRuleFactory) list \<Rightarrow> RuleTable" where
  "ruleInstances 0 ruleDefinitions =
     map (\<lambda>(key, ruleFactory). (key, (\<lambda>state helpers. None))) ruleDefinitions"
| "ruleInstances (Suc n) ruleDefinitions =
     map (\<lambda>(key, ruleFactory).
            (key, ruleFactory
               (map (\<lambda>(key', ruleFactory'). (key', createLazyRuleAccessor (ruleInstances n ruleDefinitions) key'))
                  ruleDefinitions)))
       ruleDefinitions"

definition createLazyRuleAccessors :: "nat \<Rightarrow> (string \<times> ParserRuleFactory) list \<Rightarrow> RuleTable" where
  "createLazyRuleAccessors n ruleDefinitions =
     map (\<lambda>(key, ruleFactory). (key, createLazyRuleAccessor (ruleInstances n ruleDefinitions) key))
       ruleDefinitions"

text \<open>
  An object is the list of its properties. The own keys of an object are ordered:
  first the keys that are array indexes (the decimal numerals, without leading zeros,
  of the integers below \<open>2^32 - 1\<close>) in ascending numeric order, then the other names
  in the order in which they were added. \<open>ownKeyOrder\<close> puts a list of properties into
  that order.
\<close>

definition isDigit :: "char \<Rightarrow> bool" where
  "isDigit c = (48 \<le> (of_char c :: nat) \<and> (of_char c :: nat) \<le> 57)"

definition digitsValue :: "string \<Rightarrow> nat" where
  "digitsValue key = foldl (\<lambda>n c. 10 * n + ((of_char c :: nat) - 48)) 0 key"

definition isArrayIndex :: "string \<Rightarrow> bool" where
  "isArrayIndex key =
     (key \<noteq> [] \<and> list_all isDigit key \<and> (hd key \<noteq> CHR ''0'' \<or> length key = 1)
      \<and> digitsValue key < 2 ^ 32 - 1)"

definition ownKeyOrder :: "(string \<times> 'v) list \<Rightarrow> (string \<times> 'v) list" where
  "ownKeyOrder obj =
     sort_key (\<lambda>(key, v). digitsValue key) (filter (\<lambda>(key, v). isArrayIndex key) obj)
     @ filter (\<lambda>(key, v). \<not> isArrayIndex key) obj"

text \<open>
  The object spread \<open>{...a, ...b}\<close> and \<open>Object.fromEntries\<close>: the properties are
  added one after the other (a key that is there already keeps its place and takes the
  new value), and the object has them in the order of its own keys.
\<close>

definition spread :: "(string \<times> 'v) list \<Rightarrow> (string \<times> 'v) list \<Rightarrow> (string \<times> 'v) list" where
  "spread a b = ownKeyOrder (foldl (\<lambda>obj (k, v). AList.update k v obj) a b)"

definition fromEntries :: "(string \<times> 'v) list \<Rightarrow> (string \<times> 'v) list" where
  "fromEntries entries = spread [] entries"

text \<open>
  The definition of a grammar: the properties of the \<open>tokens\<close> object and of the object
  of rule factories, in the order in which the grammar declares them.
\<close>

record GrammarDefinition =
  tokens_def :: "(string \<times> TokenPattern) list"
  rules_def :: "(string \<times> ParserRuleFactory) list"

text \<open>
  \<open>createGrammar\<close>. The \<open>tokens\<close> object of the definition is the object of the
  declared properties; \<open>Reflect.ownKeys(tokens)\<close> goes through it in the order of its
  own keys.
\<close>

definition createGrammar :: "nat \<Rightarrow> GrammarDefinition \<Rightarrow> Grammar" where
  "createGrammar n definition' =
     (let tokens' = fromEntries (tokens_def definition') in
      \<lparr>tokenTypes =
         fromEntries (map (\<lambda>(key, pattern).
                (key, case pattern of CustomParser p \<Rightarrow> p | _ \<Rightarrow> createTokenParser pattern))
              tokens'),
       rules = createLazyRuleAccessors n (rules_def definition')\<rparr>)"

definition extendGrammar :: "nat \<Rightarrow> Grammar \<Rightarrow> (string \<times> ParserRuleFactory) list \<Rightarrow> Grammar" where
  "extendGrammar n grammar rules' =
     grammar\<lparr>rules := spread (rules grammar) (createLazyRuleAccessors n rules')\<rparr>"

section \<open>Grammar frontend (syntax.ts)\<close>

text \<open>
  The AST of a grammar description, as \<open>parseSyntaxAst\<close> returns it: a program is the
  list of its rules. An identifier node is its name; the token locations of the nodes
  are left out.
\<close>

datatype SyntaxTokenNode = LiteralNode string | PatternNode RegExp

datatype SyntaxExpressionNode =
    EmptyNode
  | TerminalIdentifierNode string
  | NonTerminalIdentifierNode string
  | ListNode SyntaxExpressionNode SyntaxExpressionNode
  | StructNode "(string option \<times> SyntaxExpressionNode) list"
  | ReadNode SyntaxExpressionNode
  | ChoiceNode "SyntaxExpressionNode list"
  | SequenceNode "SyntaxExpressionNode list"

datatype SyntaxRuleNode =
    TerminalRuleNode string SyntaxTokenNode
  | NonTerminalRuleNode string SyntaxExpressionNode

text \<open>
  \<open>String.prototype.toUpperCase\<close> on the strings of the model. The upper-case form of
  a code unit below 256 can lie above 255 or have two code units, so the result is
  given as the list of its code units: the letters \<open>a\<close> to \<open>z\<close> and the letters from
  U+00E0 to U+00FE except the division sign U+00F7 move down by 32, the micro sign
  U+00B5 gives U+039C, the sharp s U+00DF gives \<open>SS\<close>, U+00FF gives U+0178, and every
  other code unit is left as it is.
\<close>

definition upperCaseCodeUnits :: "char \<Rightarrow> nat list" where
  "upperCaseCodeUnits c =
     (let n = (of_char c :: nat) in
      if 97 \<le> n \<and> n \<le> 122 then [n - 32]
      else if n = 181 then [924]
      else if n = 223 then [83, 83]
      else if 224 \<le> n \<and> n \<le> 254 \<and> n \<noteq> 247 then [n - 32]
      else if n = 255 then [376]
      else [n])"

definition toUpperCase :: "string \<Rightarrow> nat list" where
  "toUpperCase s = concat (map upperCaseCodeUnits s)"

definition codeUnits :: "string \<Rightarrow> nat list" where
  "codeUnits s = map of_char s"

text \<open>
  \<open>name.charAt(0) === name.charAt(0).toUpperCase()\<close>; \<open>name.charAt(0)\<close> is the empty
  string for the empty name.
\<close>

definition isNodeTypeIdentifier :: "string \<Rightarrow> bool" where
  "isNodeTypeIdentifier name = (codeUnits (take 1 name) = toUpperCase (take 1 name))"

fun isNonTerminalRule :: "SyntaxRuleNode \<Rightarrow> bool" where
  "isNonTerminalRule (NonTerminalRuleNode name v) = True"
| "isNonTerminalRule (TerminalRuleNode name v) = False"

definition parseTerminalToken :: "SyntaxTokenNode \<Rightarrow> TokenParser" where
  "parseTerminalToken v =
     (case v of
        LiteralNode src \<Rightarrow> createTokenParser (StringPattern src)
      | PatternNode pattern \<Rightarrow> createTokenParser (RegExpPattern pattern))"

fun parseSyntaxExpression :: "SyntaxExpressionNode \<Rightarrow> ParserRuleFactory" where
  "parseSyntaxExpression EmptyNode = (\<lambda>handle. empty_rule)"
| "parseSyntaxExpression (TerminalIdentifierNode name) = (\<lambda>handle. token name)"
| "parseSyntaxExpression (NonTerminalIdentifierNode name) = (\<lambda>handle. getRule handle name)"
| "parseSyntaxExpression (ListNode item separator) =
     (\<lambda>handle. list_rule (parseSyntaxExpression item handle)
                  (parseSyntaxExpression separator handle) None)"
| "parseSyntaxExpression (StructNode fields') =
     (\<lambda>handle. struct (map (\<lambda>(name, v). field name (parseSyntaxExpression v handle)) fields'))"
| "parseSyntaxExpression (ChoiceNode alternatives) =
     (\<lambda>handle. choice (map (\<lambda>alternative. parseSyntaxExpression alternative handle) alternatives))"
| "parseSyntaxExpression (SequenceNode elements) =
     (\<lambda>handle. sequence (map (\<lambda>element. parseSyntaxExpression element handle) elements))"
| "parseSyntaxExpression (ReadNode inp) = (\<lambda>handle. text_rule (parseSyntaxExpression inp handle))"

record ParsedGrammar =
  parsedGrammar :: Grammar
  parsedRootNodeType :: string

text \<open>
  \<open>parseSyntaxGrammar\<close>: the root rule is the first non-terminal rule of the program,
  and it has to name an AST node type. The grammar is built by \<open>createGrammar\<close> (with the
  unfolding depth \<open>n\<close> of the rule table).
\<close>

definition parseSyntaxGrammar :: "nat \<Rightarrow> SyntaxRuleNode list \<Rightarrow> JSError + ParsedGrammar" where
  "parseSyntaxGrammar n rules' =
     (case find isNonTerminalRule rules' of
        None \<Rightarrow> Inl (SyntaxError ''Missing root rule in syntax grammar'')
      | Some (TerminalRuleNode rootRuleName _) \<Rightarrow>
          Inl (SyntaxError ''Missing root rule in syntax grammar'')
      | Some (NonTerminalRuleNode rootRuleName _) \<Rightarrow>
          if \<not> isNodeTypeIdentifier rootRuleName
          then Inl (SyntaxError (''Root rule must define an AST Node: '' @ rootRuleName))
          else
            let tokenDefinitions =
                  List.map_filter
                    (\<lambda>rule. case rule of
                               TerminalRuleNode name v \<Rightarrow> Some (name, parseTerminalToken v)
                             | NonTerminalRuleNode _ _ \<Rightarrow> None)
                    rules';
                ruleFactories =
                  List.map_filter
                    (\<lambda>rule. case rule of
                               TerminalRuleNode _ _ \<Rightarrow> None
                             | NonTerminalRuleNode ruleName v \<Rightarrow>
                                 if isNodeTypeIdentifier ruleName
                                 then Some (ruleName, (\<lambda>handle. node ruleName (parseSyntaxExpression v handle)))
                                 else Some (ruleName, parseSyntaxExpression v))
                    rules'
            in Inr \<lparr>parsedGrammar =
                      createGrammar n
                        \<lparr>tokens_def = map (\<lambda>(k, p). (k, CustomParser p)) (fromEntries tokenDefinitions),
                         rules_def = fromEntries ruleFactories\<rparr>,
                    parsedRootNodeType = rootRuleName\<rparr>)"

section \<open>Example inputs\<close>

text \<open>The token stream of the source \<open>bbc\<close> for a grammar with the tokens \<open>B\<close> and \<open>C\<close>.\<close>

definition input_bbc :: "Token list" where
  "input_bbc = [\<lparr>type = ''B'', location = \<lparr>start = 0, end' = 1\<rparr>\<rparr>,
                \<lparr>type = ''B'', location = \<lparr>start = 1, end' = 2\<rparr>\<rparr>,
                \<lparr>type = ''C'', location = \<lparr>start = 2, end' = 3\<rparr>\<rparr>]"

definition state_bbc :: ParserRuleInputState where
  "state_bbc = \<lparr>input = input_bbc, source = ''bbc'', currentIndex = 0\<rparr>"

definition helpers_bbc :: ParserRuleHelpers where
  "helpers_bbc = parserHelpers input_bbc ''bbc''"

text \<open>
  A grammar with the tokens \<open>A ::= "a"\<close> and \<open>B ::= "b"\<close> and the rule
  \<open><Root> ::= A\<close>, and one whose first token is the empty string.
\<close>

definition grammar_ab :: Grammar where
  "grammar_ab = createGrammar 1
     \<lparr>tokens_def = [(''A'', StringPattern ''a''), (''B'', StringPattern ''b'')],
      rules_def = [(''Root'', \<lambda>handle. node ''Root'' (token ''A''))]\<rparr>"


text \<open>
  An extension of \<open>grammar_ab\<close> by the rule \<open>Wrapper\<close>, the node of the rule \<open>Root\<close>
  read from the rules handle, and the grammar that defines both rules at once.
\<close>

definition extension_wrapper :: "(string \<times> ParserRuleFactory) list" where
  "extension_wrapper = [(''Wrapper'', \<lambda>handle. node ''Wrapper'' (getRule handle ''Root''))]"

definition grammar_ab_wrapper :: "nat \<Rightarrow> Grammar" where
  "grammar_ab_wrapper n = createGrammar n
     \<lparr>tokens_def = [(''A'', StringPattern ''a''), (''B'', StringPattern ''b'')],
      rules_def = [(''Root'', \<lambda>handle. node ''Root'' (token ''A'')),
                   (''Wrapper'', \<lambda>handle. node ''Wrapper'' (getRule handle ''Root''))]\<rparr>"

text \<open>
  The token streams of the sources \<open>foo,foo,\<close> and \<open>,foo\<close> for the tokens
  \<open>Foo ::= "foo"\<close> and \<open>Comma ::= ","\<close>, and the grammar of these tokens with the
  rule \<open>List\<close>, the list of \<open>Foo\<close> separated by \<open>Comma\<close>.
\<close>

definition input_foo_list :: "Token list" where
  "input_foo_list = [\<lparr>type = ''Foo'', location = \<lparr>start = 0, end' = 3\<rparr>\<rparr>,
                     \<lparr>type = ''Comma'', location = \<lparr>start = 3, end' = 4\<rparr>\<rparr>,
                     \<lparr>type = ''Foo'', location = \<lparr>start = 4, end' = 7\<rparr>\<rparr>,
                     \<lparr>type = ''Comma'', location = \<lparr>start = 7, end' = 8\<rparr>\<rparr>]"

definition input_comma_foo :: "Token list" where
  "input_comma_foo = [\<lparr>type = ''Comma'', location = \<lparr>start = 0, end' = 1\<rparr>\<rparr>,
                      \<lparr>type = ''Foo'', location = \<lparr>start = 1, end' = 4\<rparr>\<rparr>]"

definition state_foo_list :: ParserRuleInputState where
  "state_foo_list = \<lparr>input = input_foo_list, source = ''foo,foo,'', currentIndex = 0\<rparr>"

definition state_comma_foo :: ParserRuleInputState where
  "state_comma_foo = \<lparr>input = input_comma_foo, source = '',foo'', currentIndex = 0\<rparr>"

definition grammar_list :: Grammar where
  "grammar_list = createGrammar 1
     \<lparr>tokens_def = [(''Foo'', StringPattern ''foo''), (''Comma'', StringPattern '','')],
      rules_def = [(''List'', \<lambda>handle. list_rule (token ''Foo'') (token ''Comma'') None)]\<rparr>"


section \<open>Items of a list\<close>

text \<open>
  \<open>separated_items item separator helpers state n vs final\<close>: from \<open>state\<close>, \<open>n\<close>
  times in a row the separator succeeds and then the item succeeds on the state the
  separator left; \<open>vs\<close> are the values of these items in order and \<open>final\<close> is the
  state after the last of them.
\<close>

inductive separated_items ::
  "ParserRule \<Rightarrow> ParserRule \<Rightarrow> ParserRuleHelpers \<Rightarrow> ParserRuleInputState \<Rightarrow> nat \<Rightarrow> Value list
   \<Rightarrow> ParserRuleInputState \<Rightarrow> bool"
  for item separator helpers where
    no_more: "separated_items item separator helpers state 0 [] state"
  | one_more:
      "separator state helpers = Some (Returns (Success sepState))
       \<Longrightarrow> item (toInput sepState) helpers = Some (Returns (Success itemState))
       \<Longrightarrow> separated_items item separator helpers (toInput itemState) n vs final
       \<Longrightarrow> separated_items item separator helpers state (Suc n) (val itemState # vs) final"

section \<open>Rules that succeed one after the other\<close>

text \<open>
  \<open>succeed_in_turn helpers rs state final\<close>: the rules \<open>rs\<close> succeed one after the other,
  the first on \<open>state\<close> and each next one on the state that the one before it returned;
  \<open>final\<close> is the state after the last of them.
\<close>

inductive succeed_in_turn ::
  "ParserRuleHelpers \<Rightarrow> ParserRule list \<Rightarrow> ParserRuleInputState \<Rightarrow> ParserRuleInputState \<Rightarrow> bool"
  for helpers where
    none_left: "succeed_in_turn helpers [] state state"
  | next_rule:
      "rule state helpers = Some (Returns (Success out))
       \<Longrightarrow> succeed_in_turn helpers rest (toInput out) final
       \<Longrightarrow> succeed_in_turn helpers (rule # rest) state final"

section \<open>Basic facts about the state records\<close>

lemmas ex_defs = input_bbc_def state_bbc_def helpers_bbc_def parserHelpers_def token_def
  sequence_def withValue_def toInput_def

lemma toInput_withValue [simp]: "toInput (withValue s v ts) = s"
  by (simp add: toInput_def withValue_def)

lemma withValue_sel [simp]:
  "input (withValue s v ts) = input s"
  "source (withValue s v ts) = source s"
  "currentIndex (withValue s v ts) = currentIndex s"
  "val (withValue s v ts) = v"
  "tokens (withValue s v ts) = ts"
  by (simp_all add: withValue_def)

lemma toInput_sel [simp]:
  "input (toInput s) = input s"
  "source (toInput s) = source s"
  "currentIndex (toInput s) = currentIndex s"
  by (simp_all add: toInput_def)

lemma getTokenSource_parserHelpers:
  "getTokenSource (parserHelpers inp src) tok = slice src (start (location tok)) (end' (location tok))"
  by (simp add: parserHelpers_def)

section \<open>The repetition combinators never return a failure\<close>

lemma zeroOrMore_loop_not_Error:
  assumes "zeroOrMore_loop rule helpers cur vals = Some res"
  shows "\<forall>e. res \<noteq> Returns (Error e)"
  by (rule zeroOrMore_loop.raw_induct [OF _ assms])
     (auto split: option.splits Completion.splits Result.splits if_splits)

lemma zeroOrMore_never_fails: "zeroOrMore rule state helpers \<noteq> Some (Returns (Error e))"
  unfolding zeroOrMore_def using zeroOrMore_loop_not_Error by blast

section \<open>The error that choice returns\<close>

lemma choice_loop_all_fail:
  assumes "list_all2 (\<lambda>r e. r state helpers = Some (Returns (Error e))) rs es"
  shows "\<exists>pre e' post. e0 # es = pre @ e' # post
      \<and> choice_loop rs state helpers (Some (e0, start (error_location e0))) = Some (Returns (Error e'))
      \<and> (\<forall>x\<in>set pre. start (error_location x) < start (error_location e'))
      \<and> (\<forall>x\<in>set post. start (error_location x) \<le> start (error_location e'))"
  using assms
proof (induction rs es arbitrary: e0 rule: list_all2_induct)
  case Nil
  show ?case
    by (rule exI [of _ "[]"], rule exI [of _ e0], rule exI [of _ "[]"]) simp
next
  case (Cons r rs e1 es)
  show ?case
  proof (cases "start (error_location e1) > start (error_location e0)")
    case True
    from Cons.IH [of e1] obtain pre e' post where
      d: "e1 # es = pre @ e' # post"
      and c: "choice_loop rs state helpers (Some (e1, start (error_location e1))) = Some (Returns (Error e'))"
      and lt: "\<forall>x\<in>set pre. start (error_location x) < start (error_location e')"
      and le: "\<forall>x\<in>set post. start (error_location x) \<le> start (error_location e')"
      by blast
    have e1le: "start (error_location e1) \<le> start (error_location e')"
    proof (cases pre)
      case Nil
      with d show ?thesis by simp
    next
      case (Cons a pre')
      with d have "e1 \<in> set pre" by simp
      with lt show ?thesis by auto
    qed
    have "e0 # e1 # es = (e0 # pre) @ e' # post" using d by simp
    moreover have "choice_loop (r # rs) state helpers (Some (e0, start (error_location e0))) = Some (Returns (Error e'))"
      using Cons.hyps(1) True c by simp
    moreover have "\<forall>x\<in>set (e0 # pre). start (error_location x) < start (error_location e')"
      using lt True e1le by auto
    ultimately show ?thesis using le by blast
  next
    case False
    from Cons.IH [of e0] obtain pre e' post where
      d: "e0 # es = pre @ e' # post"
      and c: "choice_loop rs state helpers (Some (e0, start (error_location e0))) = Some (Returns (Error e'))"
      and lt: "\<forall>x\<in>set pre. start (error_location x) < start (error_location e')"
      and le: "\<forall>x\<in>set post. start (error_location x) \<le> start (error_location e')"
      by blast
    have c': "choice_loop (r # rs) state helpers (Some (e0, start (error_location e0))) = Some (Returns (Error e'))"
      using Cons.hyps(1) False c by simp
    show ?thesis
    proof (cases pre)
      case Nil
      with d have e': "e' = e0" and es: "es = post" by simp_all
      have "\<forall>x\<in>set (e1 # post). start (error_location x) \<le> start (error_location e')"
        using le False e' by auto
      then show ?thesis
        using c' e' es
        by (intro exI [of _ "[]"] exI [of _ e0] exI [of _ "e1 # post"]) simp
    next
      case (Cons a pre')
      with d have a: "a = e0" and es: "es = pre' @ e' # post" by simp_all
      have e0lt: "start (error_location e0) < start (error_location e')"
        using lt Cons a by simp
      have "e0 # e1 # es = (e0 # e1 # pre') @ e' # post" using es by simp
      moreover have "\<forall>x\<in>set (e0 # e1 # pre'). start (error_location x) < start (error_location e')"
        using lt Cons a e0lt False by auto
      ultimately show ?thesis using c' le by blast
    qed
  qed
qed

lemma choice_all_fail:
  assumes "list_all2 (\<lambda>r e. r state helpers = Some (Returns (Error e))) rs es" and "rs \<noteq> []"
  shows "\<exists>pre e' post. es = pre @ e' # post
      \<and> choice rs state helpers = Some (Returns (Error e'))
      \<and> (\<forall>x\<in>set pre. start (error_location x) < start (error_location e'))
      \<and> (\<forall>x\<in>set post. start (error_location x) \<le> start (error_location e'))"
proof -
  from assms obtain r rs' e es' where rs: "rs = r # rs'" and es: "es = e # es'"
    and r: "r state helpers = Some (Returns (Error e))"
    and rest: "list_all2 (\<lambda>r e. r state helpers = Some (Returns (Error e))) rs' es'"
    by (cases rs; cases es) auto
  have "choice rs state helpers = choice_loop rs' state helpers (Some (e, start (error_location e)))"
    by (simp add: choice_def rs r)
  with choice_loop_all_fail [OF rest, of e] show ?thesis
    unfolding es by simp
qed

lemma choice_loop_first_success:
  assumes "\<forall>r\<in>set pre. \<exists>e. r state helpers = Some (Returns (Error e))"
      and "r state helpers = Some (Returns (Success out))"
  shows "choice_loop (pre @ r # post) state helpers cur = Some (Returns (Success out))"
  using assms
  by (induction pre arbitrary: cur) (auto simp: Let_def split: option.splits)

section \<open>The order of the own keys of an object\<close>

lemma map_of_insort_key:
  assumes "\<And>k v k' v'. k = k' \<Longrightarrow> f (k, v) = f (k', v')"
  shows "map_of (insort_key f (k, v) ys) = (map_of ys)(k \<mapsto> v)"
proof (induction ys)
  case Nil
  show ?case by simp
next
  case (Cons y ys)
  obtain ky vy where y: "y = (ky, vy)" by (cases y)
  show ?case
  proof (cases "f (k, v) \<le> f y")
    case True
    then show ?thesis by (auto simp: fun_eq_iff)
  next
    case False
    with assms [of k ky v vy] y have "k \<noteq> ky" by auto
    with False Cons.IH y show ?thesis by (auto simp: fun_eq_iff)
  qed
qed

lemma map_of_sort_key:
  assumes "\<And>k v k' v'. k = k' \<Longrightarrow> f (k, v) = f (k', v')"
  shows "map_of (sort_key f xs) = map_of xs"
proof (induction xs)
  case Nil
  show ?case by simp
next
  case (Cons x xs)
  obtain k v where x: "x = (k, v)" by (cases x)
  with Cons.IH map_of_insort_key [of f k v "sort_key f xs", OF assms] show ?case by simp
qed

lemma map_of_filter_keys:
  "map_of (filter (\<lambda>(k, v). P k) xs) k = (if P k then map_of xs k else None)"
  by (induction xs) auto

lemma map_of_filter_not_keys:
  "map_of (filter (\<lambda>(k, v). \<not> P k) xs) k = (if P k then None else map_of xs k)"
  by (induction xs) auto

lemma map_of_ownKeyOrder: "map_of (ownKeyOrder xs) = map_of xs"
proof
  fix k
  have s: "map_of (sort_key (\<lambda>(key, v). digitsValue key) ys) = map_of ys" for ys :: "(string \<times> 'a) list"
    by (rule map_of_sort_key) simp
  show "map_of (ownKeyOrder xs) k = map_of xs k"
    by (simp add: ownKeyOrder_def map_add_def s map_of_filter_keys map_of_filter_not_keys
             split: option.splits)
qed














section \<open>The lexer loop\<close>






lemmas grammar_defs = createGrammar_def fromEntries_def spread_def ownKeyOrder_def
  isArrayIndex_def isDigit_def digitsValue_def createTokenParser_def literalRegExp_def slice_def
  Let_def

lemma tokenize_ab: "tokenize grammar_ab ''ab'' =
       Some (Success [\<lparr>type = ''A'', location = \<lparr>start = 0, end' = 1\<rparr>\<rparr>,
                      \<lparr>type = ''B'', location = \<lparr>start = 1, end' = 2\<rparr>\<rparr>])"
  by (simp add: tokenize_def tokenize_loop.simps grammar_ab_def grammar_defs)

lemma tokenize_a: "tokenize grammar_ab ''a'' =
       Some (Success [\<lparr>type = ''A'', location = \<lparr>start = 0, end' = 1\<rparr>\<rparr>])"
  by (simp add: tokenize_def tokenize_loop.simps grammar_ab_def grammar_defs)

lemma rules_grammar_ab: "map_of (rules grammar_ab) ''Root'' = Some (node ''Root'' (token ''A''))"
  by (simp add: grammar_ab_def createGrammar_def createLazyRuleAccessors_def
        createLazyRuleAccessor_def getRule_def)

section \<open>Termination of the repetition loops\<close>

lemma zeroOrMore_loop_returns:
  assumes "\<forall>state. rule state helpers \<noteq> None"
  shows "\<exists>res. zeroOrMore_loop rule helpers cur vals = Some res"
proof (induction "arrayLengthLimit - length vals" arbitrary: cur vals rule: less_induct)
  case less
  from assms obtain cpl where c: "rule (toInput cur) helpers = Some cpl" by blast
  show ?case
  proof (cases cpl)
    case (Throws x)
    with c show ?thesis by (subst zeroOrMore_loop.simps) simp
  next
    case (Returns r)
    show ?thesis
    proof (cases r)
      case (Error e)
      with c Returns show ?thesis by (subst zeroOrMore_loop.simps) simp
    next
      case (Success resultState)
      show ?thesis
      proof (cases "currentIndex resultState = currentIndex cur \<or> arrayLengthLimit \<le> length vals")
        case True
        with c Returns Success show ?thesis by (subst zeroOrMore_loop.simps) auto
      next
        case False
        then have "arrayLengthLimit - length (vals @ [val resultState]) < arrayLengthLimit - length vals"
          by auto
        from less [OF this] obtain res where
          "zeroOrMore_loop rule helpers (resultState\<lparr>tokens := tokens cur @ tokens resultState\<rparr>)
             (vals @ [val resultState]) = Some res"
          by blast
        with c Returns Success False show ?thesis by (subst zeroOrMore_loop.simps) simp
      qed
    qed
  qed
qed

lemma oneOrMore_loop_returns:
  assumes "\<forall>state. rule state helpers \<noteq> None"
  shows "\<exists>res. oneOrMore_loop rule helpers cur vals = Some res"
proof (induction "arrayLengthLimit - length vals" arbitrary: cur vals rule: less_induct)
  case less
  from assms obtain cpl where c: "rule (toInput cur) helpers = Some cpl" by blast
  show ?case
  proof (cases cpl)
    case (Throws x)
    with c show ?thesis by (subst oneOrMore_loop.simps) simp
  next
    case (Returns r)
    show ?thesis
    proof (cases r)
      case (Error e)
      with c Returns show ?thesis by (subst oneOrMore_loop.simps) simp
    next
      case (Success resultState)
      show ?thesis
      proof (cases "currentIndex resultState = currentIndex cur \<or> arrayLengthLimit \<le> length vals")
        case True
        with c Returns Success show ?thesis by (subst oneOrMore_loop.simps) auto
      next
        case False
        then have "arrayLengthLimit - length (vals @ [val resultState]) < arrayLengthLimit - length vals"
          by auto
        from less [OF this] obtain res where
          "oneOrMore_loop rule helpers (resultState\<lparr>tokens := tokens cur @ tokens resultState\<rparr>)
             (vals @ [val resultState]) = Some res"
          by blast
        with c Returns Success False show ?thesis by (subst oneOrMore_loop.simps) simp
      qed
    qed
  qed
qed

lemma zeroOrMore_returns:
  "\<forall>state. rule state helpers \<noteq> None \<Longrightarrow> \<exists>res. zeroOrMore rule state helpers = Some res"
  unfolding zeroOrMore_def by (rule zeroOrMore_loop_returns)

lemma oneOrMore_returns:
  assumes "\<forall>state. rule state helpers \<noteq> None"
  shows "\<exists>res. oneOrMore rule state helpers = Some res"
proof -
  from assms obtain cpl where c: "rule state helpers = Some cpl" by blast
  show ?thesis
  proof (cases cpl)
    case (Throws x)
    with c show ?thesis by (simp add: oneOrMore_def)
  next
    case (Returns r)
    show ?thesis
    proof (cases r)
      case (Error e)
      with c Returns show ?thesis by (simp add: oneOrMore_def)
    next
      case (Success firstResultState)
      from oneOrMore_loop_returns [of rule helpers, OF assms] obtain res where
        "oneOrMore_loop rule helpers (firstResultState\<lparr>val := Null\<rparr>) [val firstResultState] = Some res"
        by blast
      with c Returns Success show ?thesis by (simp add: oneOrMore_def Let_def)
    qed
  qed
qed

lemma zeroOrMore_loop_stops:
  assumes "zeroOrMore_loop rule helpers cur vals = Some (Returns (Success out))"
  shows "(\<exists>e. rule (toInput out) helpers = Some (Returns (Error e)))
       \<or> (\<exists>s. rule (toInput out) helpers = Some (Returns (Success s))
               \<and> currentIndex s = currentIndex out)"
proof -
  have "\<forall>out. res = Returns (Success out) \<longrightarrow>
          (\<exists>e. rule (toInput out) helpers = Some (Returns (Error e)))
        \<or> (\<exists>s. rule (toInput out) helpers = Some (Returns (Success s))
               \<and> currentIndex s = currentIndex out)"
    if "zeroOrMore_loop rule helpers cur vals = Some res" for res
    by (rule zeroOrMore_loop.raw_induct [OF _ that])
       (auto simp: toInput_def split: option.splits Completion.splits Result.splits if_splits)
  with assms show ?thesis by blast
qed

section \<open>The root rule of a syntax grammar\<close>

lemma find_first:
  "\<forall>x\<in>set pre. \<not> P x \<Longrightarrow> P x \<Longrightarrow> find P (pre @ x # post) = Some x"
  by (induction pre) auto

lemma isNodeTypeIdentifier_Cons:
  "isNodeTypeIdentifier (c # cs) \<longleftrightarrow>
     \<not> ((97 \<le> (of_char c :: nat) \<and> (of_char c :: nat) \<le> 122)
        \<or> (of_char c :: nat) = 181
        \<or> (223 \<le> (of_char c :: nat) \<and> (of_char c :: nat) \<noteq> 247))"
proof -
  define n where "n = (of_char c :: nat)"
  have b: "n < 256" unfolding n_def by simp
  have "isNodeTypeIdentifier (c # cs) \<longleftrightarrow>
          [n] = (if 97 \<le> n \<and> n \<le> 122 then [n - 32]
                 else if n = 181 then [924]
                 else if n = 223 then [83, 83]
                 else if 224 \<le> n \<and> n \<le> 254 \<and> n \<noteq> 247 then [n - 32]
                 else if n = 255 then [376]
                 else [n])"
    by (simp add: isNodeTypeIdentifier_def codeUnits_def toUpperCase_def upperCaseCodeUnits_def
          Let_def n_def)
  with b show ?thesis unfolding n_def [symmetric] by auto
qed

lemma isNodeTypeIdentifier_examples:
  "isNodeTypeIdentifier ''Root''" "\<not> isNodeTypeIdentifier ''root''"
  "isNodeTypeIdentifier ''Program''" "\<not> isNodeTypeIdentifier ''expr''"
  "\<not> isNodeTypeIdentifier [CHR 0xE9, CHR ''x'']"
  by (simp_all add: isNodeTypeIdentifier_Cons)

section \<open>The list combinator\<close>

lemma separated_items_length:
  "separated_items item separator helpers state n vs final \<Longrightarrow> length vs = n"
  by (induction rule: separated_items.induct) auto

lemma tailItem_success:
  assumes "tailItem item separator state helpers = Some (Returns (Success out))"
  shows "\<exists>sepState itemState.
           separator state helpers = Some (Returns (Success sepState))
         \<and> item (toInput sepState) helpers = Some (Returns (Success itemState))
         \<and> toInput out = toInput itemState \<and> val out = val itemState"
  using assms
  by (auto simp: tailItem_def map_rule_def sequence_def toInput_def withValue_def
           split: option.splits Completion.splits Result.splits)

lemma zeroOrMore_loop_tailItems:
  assumes "zeroOrMore_loop rule helpers cur vals = Some res"
  shows "rule = tailItem item separator \<longrightarrow> (\<forall>out. res = Returns (Success out) \<longrightarrow>
           (\<exists>n vs. separated_items item separator helpers (toInput cur) n vs (toInput out)
                  \<and> val out = Arr (vals @ vs)))"
proof (rule zeroOrMore_loop.raw_induct [OF _ assms], intro impI allI)
  fix f :: "ParserRule \<Rightarrow> ParserRuleHelpers \<Rightarrow> ParserRuleOutputState \<Rightarrow> Value list
            \<Rightarrow> ParserRuleResult Completion option"
  fix rule h c v y out
  assume IH: "\<And>rule h c v y. f rule h c v = Some y \<Longrightarrow>
        rule = tailItem item separator \<longrightarrow> (\<forall>out. y = Returns (Success out) \<longrightarrow>
           (\<exists>n vs. separated_items item separator h (toInput c) n vs (toInput out)
                  \<and> val out = Arr (v @ vs)))"
    and eq: "(case rule (toInput c) h of None \<Rightarrow> None
          | Some (Throws x) \<Rightarrow> Some (Throws x)
          | Some (Returns (Error e)) \<Rightarrow> Some (Returns (Success (c\<lparr>val := Arr v\<rparr>)))
          | Some (Returns (Success resultState)) \<Rightarrow>
              if currentIndex resultState = currentIndex c
              then Some (Returns (Success (c\<lparr>val := Arr v\<rparr>)))
              else if arrayLengthLimit \<le> length v
              then Some (Throws RangeError)
              else f rule h (resultState\<lparr>tokens := tokens c @ tokens resultState\<rparr>)
                     (v @ [val resultState])) = Some y"
    and r: "rule = tailItem item separator"
    and y: "y = Returns (Success out)"
  have same: "toInput (c\<lparr>val := Arr v\<rparr>) = toInput c" by (simp add: toInput_def)
  have stop: "separated_items item separator h (toInput c) 0 [] (toInput (c\<lparr>val := Arr v\<rparr>))"
    unfolding same by (rule separated_items.no_more)
  show "\<exists>n vs. separated_items item separator h (toInput c) n vs (toInput out) \<and> val out = Arr (v @ vs)"
  proof (cases "rule (toInput c) h")
    case None
    with eq show ?thesis by simp
  next
    case (Some cpl)
    show ?thesis
    proof (cases cpl)
      case (Throws x)
      with Some eq y show ?thesis by simp
    next
      case (Returns res)
      show ?thesis
      proof (cases res)
        case (Error e)
        with Some Returns eq y have "out = c\<lparr>val := Arr v\<rparr>" by simp
        with stop show ?thesis by (intro exI [of _ 0] exI [of _ "[]"]) simp
      next
        case (Success mid)
        show ?thesis
        proof (cases "currentIndex mid = currentIndex c")
          case True
          with Some Returns Success eq y have "out = c\<lparr>val := Arr v\<rparr>" by simp
          with stop show ?thesis by (intro exI [of _ 0] exI [of _ "[]"]) simp
        next
          case False
          with Some Returns Success eq y
          have "f rule h (mid\<lparr>tokens := tokens c @ tokens mid\<rparr>) (v @ [val mid]) = Some y"
            by (simp split: if_splits)
          from IH [OF this] r y obtain n vs where
            ch: "separated_items item separator h (toInput (mid\<lparr>tokens := tokens c @ tokens mid\<rparr>)) n vs (toInput out)"
            and v: "val out = Arr ((v @ [val mid]) @ vs)"
            by blast
          have m: "toInput (mid\<lparr>tokens := tokens c @ tokens mid\<rparr>) = toInput mid"
            by (simp add: toInput_def)
          from Some Returns Success r
          have "tailItem item separator (toInput c) h = Some (Returns (Success mid))" by simp
          from tailItem_success [OF this] obtain sepState itemState where
            s: "separator (toInput c) h = Some (Returns (Success sepState))"
            and i: "item (toInput sepState) h = Some (Returns (Success itemState))"
            and t: "toInput mid = toInput itemState" and w: "val mid = val itemState"
            by blast
          from ch m t have "separated_items item separator h (toInput itemState) n vs (toInput out)"
            by simp
          from separated_items.one_more [OF s i this] v w
          show ?thesis by (intro exI [of _ "Suc n"] exI [of _ "val itemState # vs"]) simp
        qed
      qed
    qed
  qed
qed

lemma zeroOrMore_tailItems:
  assumes "zeroOrMore (tailItem item separator) state helpers = Some (Returns (Success out))"
  shows "\<exists>n vs. separated_items item separator helpers state n vs (toInput out) \<and> val out = Arr vs"
proof -
  from assms have "zeroOrMore_loop (tailItem item separator) helpers (withValue state Null []) [] =
                   Some (Returns (Success out))"
    by (simp add: zeroOrMore_def)
  from zeroOrMore_loop_tailItems [OF this, of item separator] show ?thesis by simp
qed

lemma sequence_loop_tailItems:
  assumes "sequence_loop (replicate k (tailItem item separator) @ [zeroOrMore (tailItem item separator)])
             helpers state vals toks = Some (Returns (Success out))"
  shows "\<exists>n vs ws. separated_items item separator helpers state n (vs @ ws) (toInput out)
           \<and> length vs = k \<and> val out = Arr (vals @ vs @ [Arr ws])"
  using assms
proof (induction k arbitrary: state vals toks)
  case 0
  then obtain z where z: "zeroOrMore (tailItem item separator) state helpers = Some (Returns (Success z))"
    and out: "out = withValue (toInput z) (Arr (vals @ [val z])) (toks @ tokens z)"
    by (auto split: option.splits Completion.splits Result.splits)
  from zeroOrMore_tailItems [OF z] obtain n ws where
    "separated_items item separator helpers state n ws (toInput z)" "val z = Arr ws" by blast
  with out show ?case by (intro exI [of _ n] exI [of _ "[]"] exI [of _ ws]) simp
next
  case (Suc k)
  then obtain mid where
    mid: "tailItem item separator state helpers = Some (Returns (Success mid))"
    and rest: "sequence_loop (replicate k (tailItem item separator) @ [zeroOrMore (tailItem item separator)])
             helpers (toInput mid) (vals @ [val mid]) (toks @ tokens mid) = Some (Returns (Success out))"
    by (auto split: option.splits Completion.splits Result.splits)
  from Suc.IH [OF rest] obtain n vs ws where
    ch: "separated_items item separator helpers (toInput mid) n (vs @ ws) (toInput out)"
    and len: "length vs = k" and v: "val out = Arr ((vals @ [val mid]) @ vs @ [Arr ws])"
    by blast
  from tailItem_success [OF mid] obtain sepState itemState where
    s: "separator state helpers = Some (Returns (Success sepState))"
    and i: "item (toInput sepState) helpers = Some (Returns (Success itemState))"
    and t: "toInput mid = toInput itemState" and w: "val mid = val itemState"
    by blast
  from ch t have "separated_items item separator helpers (toInput itemState) n (vs @ ws) (toInput out)"
    by simp
  from separated_items.one_more [OF s i this] len v w
  show ?case
    by (intro exI [of _ "Suc n"] exI [of _ "val itemState # vs"] exI [of _ ws]) simp
qed

lemma combineListResults_items:
  "combineListResults (Arr (v # vs @ [Arr ws])) = Arr (v # vs @ ws)"
  by (simp add: combineListResults_def slice_def)

lemma createListMatcher_success:
  assumes "1 \<le> minLength"
      and "createListMatcher item separator minLength state helpers = Some (Returns (Success out))"
  shows "\<exists>first n vs. item state helpers = Some (Returns (Success first))
           \<and> separated_items item separator helpers (toInput first) n vs (toInput out)
           \<and> val out = Arr (val first # vs) \<and> length (val first # vs) = 1 + n
           \<and> nat minLength \<le> 1 + n"
proof -
  let ?T = "tailItem item separator"
  from assms have m: "map_rule (sequence (item # replicate (nat (minLength - 1)) ?T @ [zeroOrMore ?T]))
                combineListResults state helpers = Some (Returns (Success out))"
    by (simp add: createListMatcher.simps repeat_def)
  then obtain sq where sq: "sequence (item # replicate (nat (minLength - 1)) ?T @ [zeroOrMore ?T]) state helpers =
               Some (Returns (Success sq))"
    and out: "out = sq\<lparr>val := combineListResults (val sq)\<rparr>"
    by (auto simp: map_rule_def split: option.splits Completion.splits Result.splits)
  from sq obtain first where first: "item state helpers = Some (Returns (Success first))"
    and rest: "sequence_loop (replicate (nat (minLength - 1)) ?T @ [zeroOrMore ?T]) helpers
                 (toInput first) ([] @ [val first]) ([] @ tokens first) = Some (Returns (Success sq))"
    by (auto simp: sequence_def split: option.splits Completion.splits Result.splits)
  from sequence_loop_tailItems [OF rest] obtain n vs ws where
    ch: "separated_items item separator helpers (toInput first) n (vs @ ws) (toInput sq)"
    and len: "length vs = nat (minLength - 1)"
    and v: "val sq = Arr (([] @ [val first]) @ vs @ [Arr ws])"
    by blast
  from v have "val out = Arr (val first # vs @ ws)"
    using out combineListResults_items [of "val first" vs ws] by simp
  moreover have "toInput out = toInput sq" using out by (simp add: toInput_def)
  moreover from separated_items_length [OF ch] have "length (vs @ ws) = n" .
  moreover from this len assms(1) have "nat minLength \<le> 1 + n" by auto
  ultimately show ?thesis
    using first ch by (intro exI [of _ first] exI [of _ n] exI [of _ "vs @ ws"]) simp
qed

lemma createListMatcher_item_fails:
  assumes "item state helpers = Some (Returns (Error e))"
  shows "1 \<le> minLength \<Longrightarrow> createListMatcher item separator minLength state helpers = Some (Returns (Error e))"
    and "minLength \<le> 0 \<Longrightarrow> createListMatcher item separator minLength state helpers =
           Some (Returns (Success (withValue state (Arr []) [])))"
proof -
  have one: "createListMatcher item separator k state helpers = Some (Returns (Error e))" if "1 \<le> k" for k
    using that assms by (simp add: createListMatcher.simps [of item separator k] map_rule_def sequence_def)
  show "1 \<le> minLength \<Longrightarrow> createListMatcher item separator minLength state helpers = Some (Returns (Error e))"
    by (rule one)
  show "minLength \<le> 0 \<Longrightarrow> createListMatcher item separator minLength state helpers =
           Some (Returns (Success (withValue state (Arr []) [])))"
    using one [of 1]
    by (simp add: createListMatcher.simps [of item separator minLength] map_rule_def optional_def withValue_def)
qed

lemma createListMatcher_optional:
  assumes "minLength \<le> 0"
  shows "createListMatcher item separator minLength state helpers =
     (case createListMatcher item separator 1 state helpers of
        None \<Rightarrow> None
      | Some (Throws x) \<Rightarrow> Some (Throws x)
      | Some (Returns (Error e)) \<Rightarrow> Some (Returns (Success (withValue state (Arr []) [])))
      | Some (Returns (Success out)) \<Rightarrow> Some (Returns (Success out)))"
proof (cases "createListMatcher item separator 1 state helpers")
  case None
  with assms show ?thesis
    by (simp add: createListMatcher.simps [of item separator minLength] map_rule_def optional_def)
next
  case (Some cpl)
  show ?thesis
  proof (cases cpl)
    case (Throws x)
    with Some assms show ?thesis
      by (simp add: createListMatcher.simps [of item separator minLength] map_rule_def optional_def)
  next
    case (Returns res)
    show ?thesis
    proof (cases res)
      case (Error e)
      with Some Returns assms show ?thesis
        by (simp add: createListMatcher.simps [of item separator minLength] map_rule_def optional_def
              withValue_def)
    next
      case (Success out)
      with Some Returns have "createListMatcher item separator 1 state helpers = Some (Returns (Success out))"
        by simp
      from createListMatcher_success [OF _ this] obtain vs where "val out = Arr vs" by auto
      then have "out\<lparr>val := (case val out of Null \<Rightarrow> Arr [] | v \<Rightarrow> v)\<rparr> = out" by simp
      with Some Returns Success assms show ?thesis
        by (simp add: createListMatcher.simps [of item separator minLength] map_rule_def optional_def)
    qed
  qed
qed

lemma zeroOrMore_no_Error: "zeroOrMore rule state helpers \<noteq> Some (Returns (Error e))"
  by (rule zeroOrMore_never_fails)

lemma createListMatcher_1_Error:
  assumes "createListMatcher item separator 1 state helpers = Some (Returns (Error e))"
  shows "item state helpers = Some (Returns (Error e))"
proof -
  let ?Z = "zeroOrMore (tailItem item separator)"
  from assms have sq: "sequence [item, ?Z] state helpers = Some (Returns (Error e))"
    by (auto simp: createListMatcher.simps [of item separator 1] repeat_def map_rule_def
             split: option.splits Completion.splits Result.splits)
  show ?thesis
  proof (cases "item state helpers")
    case None
    with sq show ?thesis by (simp add: sequence_def)
  next
    case (Some cpl)
    show ?thesis
    proof (cases cpl)
      case (Throws x)
      with Some sq show ?thesis by (simp add: sequence_def)
    next
      case (Returns res)
      show ?thesis
      proof (cases res)
        case (Error e')
        with Some Returns sq show ?thesis by (simp add: sequence_def)
      next
        case (Success first)
        with Some Returns sq zeroOrMore_no_Error [of "tailItem item separator" "toInput first" helpers e]
        show ?thesis
          by (auto simp: sequence_def split: option.splits Completion.splits Result.splits)
      qed
    qed
  qed
qed

lemma createListMatcher_success_any:
  assumes "createListMatcher item separator minLength state helpers = Some (Returns (Success out))"
      and "1 \<le> minLength \<or> (\<exists>first. item state helpers = Some (Returns (Success first)))"
  shows "\<exists>first n vs. item state helpers = Some (Returns (Success first))
           \<and> separated_items item separator helpers (toInput first) n vs (toInput out)
           \<and> val out = Arr (val first # vs) \<and> length (val first # vs) = 1 + n
           \<and> nat minLength \<le> 1 + n"
proof (cases "1 \<le> minLength")
  case True
  from createListMatcher_success [OF True assms(1)] show ?thesis .
next
  case False
  then have le: "minLength \<le> 0" by simp
  with assms(2) obtain first where first: "item state helpers = Some (Returns (Success first))" by auto
  have "createListMatcher item separator 1 state helpers = Some (Returns (Success out))"
  proof (cases "createListMatcher item separator 1 state helpers")
    case None
    with assms(1) createListMatcher_optional [OF le, of item separator state helpers]
    show ?thesis by simp
  next
    case (Some cpl)
    show ?thesis
    proof (cases cpl)
      case (Throws x)
      with Some assms(1) createListMatcher_optional [OF le, of item separator state helpers]
      show ?thesis by simp
    next
      case (Returns res)
      show ?thesis
      proof (cases res)
        case (Error e)
        with Some Returns createListMatcher_1_Error [of item separator state helpers e] first
        show ?thesis by simp
      next
        case (Success out')
        with Some Returns assms(1) createListMatcher_optional [OF le, of item separator state helpers]
        show ?thesis by simp
      qed
    qed
  qed
  from createListMatcher_success [OF _ this] le show ?thesis by auto
qed

lemma zeroOrMore_stops:
  assumes "zeroOrMore rule state helpers = Some (Returns (Success out))"
  shows "(\<exists>e. rule (toInput out) helpers = Some (Returns (Error e)))
       \<or> (\<exists>s. rule (toInput out) helpers = Some (Returns (Success s))
               \<and> currentIndex s = currentIndex out)"
  using assms unfolding zeroOrMore_def by (rule zeroOrMore_loop_stops)

lemma sequence_loop_last:
  assumes "sequence_loop (rs @ [r]) helpers state vals toks = Some (Returns (Success out))"
  shows "\<exists>mid z. r mid helpers = Some (Returns (Success z)) \<and> toInput out = toInput z"
  using assms
proof (induction rs arbitrary: state vals toks)
  case Nil
  then obtain z where z: "r state helpers = Some (Returns (Success z))"
    and o: "out = withValue (toInput z) (Arr (vals @ [val z])) (toks @ tokens z)"
    by (auto split: option.splits Completion.splits Result.splits)
  from z o show ?case by (intro exI [of _ state] exI [of _ z]) simp
next
  case (Cons a rs)
  then obtain mid where
    "sequence_loop (rs @ [r]) helpers (toInput mid) (vals @ [val mid]) (toks @ tokens mid) =
       Some (Returns (Success out))"
    by (auto split: option.splits Completion.splits Result.splits)
  from Cons.IH [OF this] show ?case .
qed

lemma createListMatcher_stops:
  assumes "1 \<le> minLength"
      and "createListMatcher item separator minLength state helpers = Some (Returns (Success out))"
  shows "(\<exists>e. tailItem item separator (toInput out) helpers = Some (Returns (Error e)))
       \<or> (\<exists>s. tailItem item separator (toInput out) helpers = Some (Returns (Success s))
               \<and> currentIndex s = currentIndex out)"
proof -
  let ?T = "tailItem item separator"
  from assms have "map_rule (sequence (item # replicate (nat (minLength - 1)) ?T @ [zeroOrMore ?T]))
                combineListResults state helpers = Some (Returns (Success out))"
    by (simp add: createListMatcher.simps repeat_def)
  then obtain sq where sq: "sequence_loop ((item # replicate (nat (minLength - 1)) ?T) @ [zeroOrMore ?T])
               helpers state [] [] = Some (Returns (Success sq))"
    and out: "toInput out = toInput sq"
    by (auto simp: map_rule_def sequence_def toInput_def
             split: option.splits Completion.splits Result.splits)
  from sequence_loop_last [OF sq] obtain mid z where
    z: "zeroOrMore ?T mid helpers = Some (Returns (Success z))" and t: "toInput sq = toInput z"
    by blast
  from out t have "toInput out = toInput z" by simp
  moreover from this have "currentIndex out = currentIndex z" by (metis toInput_sel(3))
  ultimately show ?thesis using zeroOrMore_stops [OF z] by simp
qed

lemma createListMatcher_one:
  assumes "createListMatcher item separator minLength state helpers = Some (Returns (Success out))"
      and "minLength \<le> 0"
      and "item state helpers = Some (Returns (Success first))"
  shows "createListMatcher item separator 1 state helpers = Some (Returns (Success out))"
proof (cases "createListMatcher item separator 1 state helpers")
  case None
  with assms(1) createListMatcher_optional [OF assms(2), of item separator state helpers]
  show ?thesis by simp
next
  case (Some cpl)
  show ?thesis
  proof (cases cpl)
    case (Throws x)
    with Some assms(1) createListMatcher_optional [OF assms(2), of item separator state helpers]
    show ?thesis by simp
  next
    case (Returns res)
    show ?thesis
    proof (cases res)
      case (Error e)
      with Some Returns createListMatcher_1_Error [of item separator state helpers e] assms(3)
      show ?thesis by simp
    next
      case (Success out')
      with Some Returns assms(1) createListMatcher_optional [OF assms(2), of item separator state helpers]
      show ?thesis by simp
    qed
  qed
qed

lemma createListMatcher_stops_any:
  assumes "createListMatcher item separator minLength state helpers = Some (Returns (Success out))"
      and "1 \<le> minLength \<or> (\<exists>first. item state helpers = Some (Returns (Success first)))"
  shows "(\<exists>e. tailItem item separator (toInput out) helpers = Some (Returns (Error e)))
       \<or> (\<exists>s. tailItem item separator (toInput out) helpers = Some (Returns (Success s))
               \<and> currentIndex s = currentIndex out)"
proof (cases "1 \<le> minLength")
  case True
  from createListMatcher_stops [OF True assms(1)] show ?thesis .
next
  case False
  then have le: "minLength \<le> 0" by simp
  with assms(2) obtain first where "item state helpers = Some (Returns (Success first))" by auto
  from createListMatcher_one [OF assms(1) le this] createListMatcher_stops [of 1 item separator state helpers out]
  show ?thesis by simp
qed

lemma createListMatcher_trailing_separator:
  assumes "item state helpers = Some (Returns (Success first))"
      and "separator (toInput first) helpers = Some (Returns (Success sepState))"
      and "item (toInput sepState) helpers = Some (Returns (Error e))"
      and "minLength \<le> 1"
  shows "createListMatcher item separator minLength state helpers =
           Some (Returns (Success (withValue (toInput first) (Arr [val first]) (tokens first))))"
proof -
  have t: "tailItem item separator (toInput first) helpers = Some (Returns (Error e))"
    using assms(2,3) by (simp add: tailItem_def map_rule_def sequence_def)
  have one: "createListMatcher item separator 1 state helpers =
           Some (Returns (Success (withValue (toInput first) (Arr [val first]) (tokens first))))"
    using assms(1) t
    by (simp add: createListMatcher.simps [of item separator 1] repeat_def map_rule_def sequence_def
          zeroOrMore_def zeroOrMore_loop.simps [of "tailItem item separator"]
          combineListResults_def slice_def withValue_def toInput_def)
  show ?thesis
  proof (cases "minLength \<le> 0")
    case True
    from createListMatcher_optional [OF True, of item separator state helpers] one
    show ?thesis by simp
  next
    case False
    with assms(4) have "minLength = 1" by simp
    with one show ?thesis by simp
  qed
qed

lemmas list_ex_defs = input_foo_list_def input_comma_foo_def state_foo_list_def state_comma_foo_def
  parserHelpers_def token_def

lemma rules_grammar_list:
  "map_of (rules grammar_list) ''List'' = Some (list_rule (token ''Foo'') (token ''Comma'') None)"
  by (simp add: grammar_list_def createGrammar_def createLazyRuleAccessors_def
        createLazyRuleAccessor_def getRule_def)

lemma list_foo_list:
  "createListMatcher (token ''Foo'') (token ''Comma'') 0 state_foo_list
     (parserHelpers input_foo_list ''foo,foo,'') =
   Some (Returns (Success
     \<lparr>input = input_foo_list, source = ''foo,foo,'', currentIndex = 3,
      val = Arr [TokenV \<lparr>type = ''Foo'', location = \<lparr>start = 0, end' = 3\<rparr>\<rparr>,
                 TokenV \<lparr>type = ''Foo'', location = \<lparr>start = 4, end' = 7\<rparr>\<rparr>],
      tokens = [\<lparr>type = ''Foo'', location = \<lparr>start = 0, end' = 3\<rparr>\<rparr>,
                \<lparr>type = ''Comma'', location = \<lparr>start = 3, end' = 4\<rparr>\<rparr>,
                \<lparr>type = ''Foo'', location = \<lparr>start = 4, end' = 7\<rparr>\<rparr>]\<rparr>))"
  by (simp add: createListMatcher.simps [of _ _ 0] createListMatcher.simps [of _ _ 1]
        repeat_def tailItem_def map_rule_def optional_def
        sequence_def zeroOrMore_def zeroOrMore_loop.simps combineListResults_def slice_def
        withValue_def toInput_def list_ex_defs arrayLengthLimit_def)

section \<open>Extension of a grammar\<close>

lemma tokenTypes_extendGrammar: "tokenTypes (extendGrammar n g rs) = tokenTypes g"
  by (simp add: extendGrammar_def)

lemma tokenize_extendGrammar: "tokenize (extendGrammar n g rs) inp = tokenize g inp"
  by (simp add: tokenize_def tokenTypes_extendGrammar)

lemma ruleInstances_handle:
  "ruleInstances (Suc n) rs = map (\<lambda>(key, ruleFactory). (key, ruleFactory (createLazyRuleAccessors n rs))) rs"
  by (simp add: createLazyRuleAccessors_def)

lemma createLazyRuleAccessors_keys: "map fst (createLazyRuleAccessors n rs) = map fst rs"
  by (induction rs) (auto simp: createLazyRuleAccessors_def)

lemma map_of_foldl_update:
  "map_of (foldl (\<lambda>obj (k, v). AList.update k v obj) a b) = map_of a ++ map_of (rev b)"
proof (induction b arbitrary: a)
  case Nil
  show ?case by simp
next
  case (Cons x b)
  obtain k v where x: "x = (k, v)" by (cases x)
  have "foldl (\<lambda>obj (k, v). AList.update k v obj) a (x # b) =
        foldl (\<lambda>obj (k, v). AList.update k v obj) (AList.update k v a) b"
    by (simp add: x)
  moreover have "map_of (AList.update k v a) = (map_of a)(k \<mapsto> v)"
    by (rule update_conv')
  ultimately have "map_of (foldl (\<lambda>obj (k, v). AList.update k v obj) a (x # b)) =
        (map_of a)(k \<mapsto> v) ++ map_of (rev b)"
    using Cons.IH [of "AList.update k v a"] by (simp only:)
  also have "\<dots> = map_of a ++ map_of (rev (x # b))"
    by (simp add: x map_add_upd_left map_add_assoc [symmetric])
  finally show ?case .
qed

lemma map_of_spread: "map_of (spread a b) = map_of a ++ map_of (rev b)"
  by (simp add: spread_def map_of_ownKeyOrder map_of_foldl_update)

section \<open>The state after a failure\<close>

lemma callers_state:
  "withValue state v ts =
     \<lparr>input = input state, source = source state, currentIndex = currentIndex state,
      val = v, tokens = ts\<rparr>"
  by (simp add: withValue_def)

lemma sequence_loop_after:
  assumes "succeed_in_turn helpers pre state mid"
  shows "\<exists>vs' ts'. sequence_loop (pre @ rest) helpers state vs ts =
                     sequence_loop rest helpers mid vs' ts'"
  using assms
proof (induction arbitrary: vs ts rule: succeed_in_turn.induct)
  case (none_left state)
  show ?case by auto
next
  case (next_rule rule state out rs final)
  from next_rule.IH [of "vs @ [val out]" "ts @ tokens out"] next_rule.hyps(1)
  show ?case by simp
qed

lemma sequence_fails_after:
  assumes "succeed_in_turn helpers pre state mid"
      and "rule mid helpers = Some (Returns (Error e))"
  shows "sequence (pre @ rule # post) state helpers = Some (Returns (Error e))"
proof -
  from sequence_loop_after [OF assms(1), of "rule # post" "[]" "[]"] obtain vs' ts' where
    "sequence_loop (pre @ rule # post) helpers state [] [] =
     sequence_loop (rule # post) helpers mid vs' ts'" by blast
  with assms(2) show ?thesis by (simp add: sequence_def)
qed

section \<open>Claims\<close>

text \<open>
  Claim C4. For \<open>choice\<close> of at least one alternative on a state where every
  alternative fails (alternative \<open>i\<close> with the error \<open>es ! i\<close>), the result is the failure
  with one of these errors, \<open>e'\<close>: every error before it in the order of the alternatives
  has a strictly smaller \<open>location.start\<close> and every error after it has a smaller or equal
  one, so \<open>e'\<close> has the greatest start and is the earliest alternative's error with that
  start. If an alternative succeeds and all alternatives before it fail, the result of
  \<open>choice\<close> is that alternative's success, whatever the alternatives after it are (they
  are not called: the result is the same also for later alternatives whose call would
  not return).
\<close>

theorem choice_furthest_error_first_success:
  "(rs \<noteq> [] \<and> list_all2 (\<lambda>r e. r state helpers = Some (Returns (Error e))) rs es
      \<longrightarrow> (\<exists>pre e' post. es = pre @ e' # post
            \<and> choice rs state helpers = Some (Returns (Error e'))
            \<and> (\<forall>x\<in>set pre. start (error_location x) < start (error_location e'))
            \<and> (\<forall>x\<in>set post. start (error_location x) \<le> start (error_location e'))))
   \<and> ((\<forall>r\<in>set before. \<exists>e. r state helpers = Some (Returns (Error e)))
        \<and> alt state helpers = Some (Returns (Success out))
      \<longrightarrow> choice (before @ alt # after) state helpers = Some (Returns (Success out)))"
  using choice_all_fail [of state helpers rs es]
        choice_loop_first_success [of before state helpers alt out after None]
  by (simp add: choice_def)

theorem choice_furthest_error_first_success_witness:
  "choice [sequence [token ''A'', token ''B'', token ''C''], sequence [token ''B'', token ''B'', token ''D'']]
     state_bbc helpers_bbc =
     Some (Returns (Error (ParserRuleError ''Expected token: D'' \<lparr>start = 2, end' = 3\<rparr>)))
   \<and> choice [token ''A'', token ''D''] state_bbc helpers_bbc =
     Some (Returns (Error (ParserRuleError ''Expected token: A'' \<lparr>start = 0, end' = 1\<rparr>)))
   \<and> choice ([token ''A''] @ token ''B'' # [token ''A'', token ''B''])  state_bbc helpers_bbc =
     Some (Returns (Success (\<lparr>input = input_bbc, source = ''bbc'', currentIndex = 1,
        val = TokenV \<lparr>type = ''B'', location = \<lparr>start = 0, end' = 1\<rparr>\<rparr>,
        tokens = [\<lparr>type = ''B'', location = \<lparr>start = 0, end' = 1\<rparr>\<rparr>]\<rparr>)))"
proof -
  let ?eA = "ParserRuleError ''Expected token: A'' \<lparr>start = 0, end' = 1\<rparr>"
  let ?eDz = "ParserRuleError ''Expected token: D'' \<lparr>start = 0, end' = 1\<rparr>"
  let ?eD = "ParserRuleError ''Expected token: D'' \<lparr>start = 2, end' = 3\<rparr>"
  have r1: "sequence [token ''A'', token ''B'', token ''C''] state_bbc helpers_bbc = Some (Returns (Error ?eA))"
    by (simp add: ex_defs)
  have r2: "sequence [token ''B'', token ''B'', token ''D''] state_bbc helpers_bbc = Some (Returns (Error ?eD))"
    by (simp add: ex_defs)
  have tA: "token ''A'' state_bbc helpers_bbc = Some (Returns (Error ?eA))"
    by (simp add: ex_defs)
  have tD: "token ''D'' state_bbc helpers_bbc = Some (Returns (Error ?eDz))"
    by (simp add: ex_defs)
  have tB: "token ''B'' state_bbc helpers_bbc = Some (Returns (Success (\<lparr>input = input_bbc, source = ''bbc'', currentIndex = 1,
        val = TokenV \<lparr>type = ''B'', location = \<lparr>start = 0, end' = 1\<rparr>\<rparr>,
        tokens = [\<lparr>type = ''B'', location = \<lparr>start = 0, end' = 1\<rparr>\<rparr>]\<rparr>)))"
    by (simp add: ex_defs)
  have "\<exists>pre e' post. [?eA, ?eD] = pre @ e' # post
      \<and> choice [sequence [token ''A'', token ''B'', token ''C''], sequence [token ''B'', token ''B'', token ''D'']]
            state_bbc helpers_bbc = Some (Returns (Error e'))
      \<and> (\<forall>x\<in>set pre. start (error_location x) < start (error_location e'))
      \<and> (\<forall>x\<in>set post. start (error_location x) \<le> start (error_location e'))"
    using choice_furthest_error_first_success
      [of "[sequence [token ''A'', token ''B'', token ''C''], sequence [token ''B'', token ''B'', token ''D'']]"
          state_bbc helpers_bbc "[?eA, ?eD]"] r1 r2
    by simp
  then obtain pre e' post where
    d: "[?eA, ?eD] = pre @ e' # post"
    and c: "choice [sequence [token ''A'', token ''B'', token ''C''], sequence [token ''B'', token ''B'', token ''D'']]
            state_bbc helpers_bbc = Some (Returns (Error e'))"
    and le: "\<forall>x\<in>set post. start (error_location x) \<le> start (error_location e')"
    by blast
  from d have "(pre = [] \<and> e' = ?eA \<and> post = [?eD]) \<or> (pre = [?eA] \<and> e' = ?eD \<and> post = [])"
    by (cases pre; cases "tl pre") auto
  with le have "e' = ?eD" by auto
  with c have 1: "choice [sequence [token ''A'', token ''B'', token ''C''], sequence [token ''B'', token ''B'', token ''D'']]
     state_bbc helpers_bbc = Some (Returns (Error ?eD))"
    by simp
  have "\<exists>pre e' post. [?eA, ?eDz] = pre @ e' # post
      \<and> choice [token ''A'', token ''D''] state_bbc helpers_bbc = Some (Returns (Error e'))
      \<and> (\<forall>x\<in>set pre. start (error_location x) < start (error_location e'))
      \<and> (\<forall>x\<in>set post. start (error_location x) \<le> start (error_location e'))"
    using choice_furthest_error_first_success
      [of "[token ''A'', token ''D'']" state_bbc helpers_bbc "[?eA, ?eDz]"] tA tD
    by simp
  then obtain pre2 e2 post2 where
    d2: "[?eA, ?eDz] = pre2 @ e2 # post2"
    and c2: "choice [token ''A'', token ''D''] state_bbc helpers_bbc = Some (Returns (Error e2))"
    and lt2: "\<forall>x\<in>set pre2. start (error_location x) < start (error_location e2)"
    by blast
  from d2 have "(pre2 = [] \<and> e2 = ?eA \<and> post2 = [?eDz]) \<or> (pre2 = [?eA] \<and> e2 = ?eDz \<and> post2 = [])"
    by (cases pre2; cases "tl pre2") auto
  with lt2 have "e2 = ?eA" by auto
  with c2 have 2: "choice [token ''A'', token ''D''] state_bbc helpers_bbc = Some (Returns (Error ?eA))"
    by simp
  have 3: "choice ([token ''A''] @ token ''B'' # [token ''A'', token ''B'']) state_bbc helpers_bbc =
     Some (Returns (Success (\<lparr>input = input_bbc, source = ''bbc'', currentIndex = 1,
        val = TokenV \<lparr>type = ''B'', location = \<lparr>start = 0, end' = 1\<rparr>\<rparr>,
        tokens = [\<lparr>type = ''B'', location = \<lparr>start = 0, end' = 1\<rparr>\<rparr>]\<rparr>)))"
    using choice_furthest_error_first_success
      [of _ state_bbc helpers_bbc _ "[token ''A'']" "token ''B''" _ "[token ''A'', token ''B'']"] tA tB
    by simp
  show ?thesis using 1 2 3 by simp
qed

text \<open>
  Claim C9. \<open>optional\<close> never returns a failure, and where its rule fails it succeeds
  with the value \<open>null\<close>, no tokens and the index of the state it was given.
  \<open>zeroOrMore\<close> never returns a failure. \<open>text\<close> succeeds exactly where its rule
  succeeds, and its value is then the concatenation, in order, of \<open>getTokenSource\<close> of
  the tokens the rule consumed; for the helpers of the driver that is the slice of the
  source at the token's location. \<open>map\<close> succeeds exactly where its rule succeeds.
\<close>

theorem optional_zeroOrMore_text_map_success:
  "optional rule state helpers \<noteq> Some (Returns (Error e))
   \<and> (rule state helpers = Some (Returns (Error e'))
        \<longrightarrow> optional rule state helpers = Some (Returns (Success (withValue state Null []))))
   \<and> currentIndex (withValue state Null []) = currentIndex state
   \<and> zeroOrMore rule state helpers \<noteq> Some (Returns (Error e))
   \<and> ((\<exists>out. text_rule rule state helpers = Some (Returns (Success out)))
        \<longleftrightarrow> (\<exists>out. rule state helpers = Some (Returns (Success out))))
   \<and> (rule state helpers = Some (Returns (Success resultState))
        \<longrightarrow> text_rule rule state helpers =
            Some (Returns (Success
              (resultState\<lparr>val := Str (concat (map (getTokenSource helpers) (tokens resultState)))\<rparr>))))
   \<and> getTokenSource (parserHelpers inp src) tok =
         slice src (start (location tok)) (end' (location tok))
   \<and> ((\<exists>out. map_rule rule transform state helpers = Some (Returns (Success out)))
        \<longleftrightarrow> (\<exists>out. rule state helpers = Some (Returns (Success out))))"
proof -
  have 1: "optional rule state helpers \<noteq> Some (Returns (Error e))"
    by (simp add: optional_def split: option.splits Completion.splits Result.splits)
  have 2: "rule state helpers = Some (Returns (Error e'))
        \<longrightarrow> optional rule state helpers = Some (Returns (Success (withValue state Null [])))"
    by (simp add: optional_def)
  have 3: "zeroOrMore rule state helpers \<noteq> Some (Returns (Error e))"
    by (rule zeroOrMore_never_fails)
  have 4: "(\<exists>out. text_rule rule state helpers = Some (Returns (Success out)))
        \<longleftrightarrow> (\<exists>out. rule state helpers = Some (Returns (Success out)))"
    by (simp add: text_rule_def split: option.splits Completion.splits Result.splits)
  have 5: "rule state helpers = Some (Returns (Success resultState))
        \<longrightarrow> text_rule rule state helpers =
            Some (Returns (Success
              (resultState\<lparr>val := Str (concat (map (getTokenSource helpers) (tokens resultState)))\<rparr>)))"
    by (simp add: text_rule_def)
  have 6: "(\<exists>out. map_rule rule transform state helpers = Some (Returns (Success out)))
        \<longleftrightarrow> (\<exists>out. rule state helpers = Some (Returns (Success out)))"
    by (simp add: map_rule_def split: option.splits Completion.splits Result.splits)
  show ?thesis
    using 1 2 3 4 5 6 by (simp add: getTokenSource_parserHelpers)
qed

theorem optional_zeroOrMore_text_map_success_witness:
  "token ''B'' \<lparr>input = [\<lparr>type = ''A'', location = \<lparr>start = 0, end' = 1\<rparr>\<rparr>], source = ''a'', currentIndex = 0\<rparr>
       (parserHelpers [\<lparr>type = ''A'', location = \<lparr>start = 0, end' = 1\<rparr>\<rparr>] ''a'') =
     Some (Returns (Error (ParserRuleError ''Expected token: B'' \<lparr>start = 0, end' = 1\<rparr>)))
   \<and> optional (token ''B'') \<lparr>input = [\<lparr>type = ''A'', location = \<lparr>start = 0, end' = 1\<rparr>\<rparr>], source = ''a'', currentIndex = 0\<rparr>
       (parserHelpers [\<lparr>type = ''A'', location = \<lparr>start = 0, end' = 1\<rparr>\<rparr>] ''a'') =
     Some (Returns (Success \<lparr>input = [\<lparr>type = ''A'', location = \<lparr>start = 0, end' = 1\<rparr>\<rparr>], source = ''a'',
                             currentIndex = 0, val = Null, tokens = []\<rparr>))
   \<and> token ''A'' \<lparr>input = [\<lparr>type = ''A'', location = \<lparr>start = 0, end' = 1\<rparr>\<rparr>], source = ''a'', currentIndex = 0\<rparr>
       (parserHelpers [\<lparr>type = ''A'', location = \<lparr>start = 0, end' = 1\<rparr>\<rparr>] ''a'') =
     Some (Returns (Success \<lparr>input = [\<lparr>type = ''A'', location = \<lparr>start = 0, end' = 1\<rparr>\<rparr>], source = ''a'',
                             currentIndex = 1, val = TokenV \<lparr>type = ''A'', location = \<lparr>start = 0, end' = 1\<rparr>\<rparr>,
                             tokens = [\<lparr>type = ''A'', location = \<lparr>start = 0, end' = 1\<rparr>\<rparr>]\<rparr>))
   \<and> text_rule (token ''A'') \<lparr>input = [\<lparr>type = ''A'', location = \<lparr>start = 0, end' = 1\<rparr>\<rparr>], source = ''a'', currentIndex = 0\<rparr>
       (parserHelpers [\<lparr>type = ''A'', location = \<lparr>start = 0, end' = 1\<rparr>\<rparr>] ''a'') =
     Some (Returns (Success \<lparr>input = [\<lparr>type = ''A'', location = \<lparr>start = 0, end' = 1\<rparr>\<rparr>], source = ''a'',
                             currentIndex = 1, val = Str ''a'',
                             tokens = [\<lparr>type = ''A'', location = \<lparr>start = 0, end' = 1\<rparr>\<rparr>]\<rparr>))"
proof -
  let ?s = "\<lparr>input = [\<lparr>type = ''A'', location = \<lparr>start = 0, end' = 1\<rparr>\<rparr>], source = ''a'', currentIndex = 0\<rparr>"
  let ?h = "parserHelpers [\<lparr>type = ''A'', location = \<lparr>start = 0, end' = 1\<rparr>\<rparr>] ''a''"
  have b: "token ''B'' ?s ?h = Some (Returns (Error (ParserRuleError ''Expected token: B'' \<lparr>start = 0, end' = 1\<rparr>)))"
    by (simp add: token_def parserHelpers_def)
  have a: "token ''A'' ?s ?h =
     Some (Returns (Success \<lparr>input = [\<lparr>type = ''A'', location = \<lparr>start = 0, end' = 1\<rparr>\<rparr>], source = ''a'',
                             currentIndex = 1, val = TokenV \<lparr>type = ''A'', location = \<lparr>start = 0, end' = 1\<rparr>\<rparr>,
                             tokens = [\<lparr>type = ''A'', location = \<lparr>start = 0, end' = 1\<rparr>\<rparr>]\<rparr>))"
    by (simp add: token_def parserHelpers_def withValue_def)
  show ?thesis
    using a b
      optional_zeroOrMore_text_map_success [of "token ''B''" ?s ?h _ "ParserRuleError ''Expected token: B'' \<lparr>start = 0, end' = 1\<rparr>"]
      optional_zeroOrMore_text_map_success [of "token ''A''" ?s ?h _ _
         "\<lparr>input = [\<lparr>type = ''A'', location = \<lparr>start = 0, end' = 1\<rparr>\<rparr>], source = ''a'',
                             currentIndex = 1, val = TokenV \<lparr>type = ''A'', location = \<lparr>start = 0, end' = 1\<rparr>\<rparr>,
                             tokens = [\<lparr>type = ''A'', location = \<lparr>start = 0, end' = 1\<rparr>\<rparr>]\<rparr>"]
    by (simp add: withValue_def parserHelpers_def slice_def)
qed

text \<open>
  Claim C10. Where the rule succeeds on the current state without advancing the index,
  \<open>zeroOrMore\<close> succeeds with the empty list (the value of the zero-length success is
  not in it), and \<open>oneOrMore\<close> succeeds with the list of that one value.
\<close>

theorem zero_length_match_asymmetry:
  assumes "rule state helpers = Some (Returns (Success resultState))"
      and "currentIndex resultState = currentIndex state"
  shows "zeroOrMore rule state helpers = Some (Returns (Success (withValue state (Arr []) [])))
       \<and> oneOrMore rule state helpers =
           Some (Returns (Success (resultState\<lparr>val := Arr [val resultState]\<rparr>)))"
proof -
  have "zeroOrMore_loop rule helpers (withValue state Null []) [] =
        Some (Returns (Success ((withValue state Null [])\<lparr>val := Arr []\<rparr>)))"
    by (subst zeroOrMore_loop.simps) (simp add: assms)
  then show ?thesis
    using assms by (simp add: zeroOrMore_def oneOrMore_def withValue_def)
qed

theorem zero_length_match_asymmetry_witness:
  "optional (token ''Foo'') \<lparr>input = [], source = [], currentIndex = 0\<rparr> (parserHelpers [] []) =
     Some (Returns (Success (withValue \<lparr>input = [], source = [], currentIndex = 0\<rparr> Null [])))
   \<and> currentIndex (withValue \<lparr>input = [], source = [], currentIndex = 0\<rparr> Null []) =
       currentIndex \<lparr>input = [], source = [], currentIndex = 0\<rparr>
   \<and> zeroOrMore (optional (token ''Foo'')) \<lparr>input = [], source = [], currentIndex = 0\<rparr> (parserHelpers [] []) =
       Some (Returns (Success (withValue \<lparr>input = [], source = [], currentIndex = 0\<rparr> (Arr []) [])))
   \<and> oneOrMore (optional (token ''Foo'')) \<lparr>input = [], source = [], currentIndex = 0\<rparr> (parserHelpers [] []) =
       Some (Returns (Success (withValue \<lparr>input = [], source = [], currentIndex = 0\<rparr> (Arr [Null]) [])))"
proof -
  have h: "optional (token ''Foo'') \<lparr>input = [], source = [], currentIndex = 0\<rparr> (parserHelpers [] []) =
     Some (Returns (Success (withValue \<lparr>input = [], source = [], currentIndex = 0\<rparr> Null [])))"
    by (simp add: optional_def token_def parserHelpers_def)
  show ?thesis
    using h zero_length_match_asymmetry
      [of "optional (token ''Foo'')" "\<lparr>input = [], source = [], currentIndex = 0\<rparr>"
          "parserHelpers [] []" "withValue \<lparr>input = [], source = [], currentIndex = 0\<rparr> Null []"]
    by (simp add: withValue_def)
qed




text \<open>
  Claim C5. For every rule, \<open>zeroOrMore\<close> and \<open>oneOrMore\<close> of the rule return whenever
  every call of the rule returns. Both loops stop as soon as the rule fails or succeeds
  without advancing the index, with the values collected so far. Where the rule
  succeeds and advances the index, the loop adds the value and goes on from the state
  the rule returned; adding a value to an array that has the greatest length of an
  array throws a \<open>RangeError\<close>, which ends the loop for a rule that advances for ever.
\<close>

theorem repetition_terminates:
  "((\<forall>state. rule state helpers \<noteq> None)
      \<longrightarrow> (\<exists>res. zeroOrMore rule state helpers = Some res)
        \<and> (\<exists>res. oneOrMore rule state helpers = Some res))
   \<and> (rule (toInput cur) helpers = Some (Returns (Error e))
      \<longrightarrow> zeroOrMore_loop rule helpers cur vals = Some (Returns (Success (cur\<lparr>val := Arr vals\<rparr>)))
        \<and> oneOrMore_loop rule helpers cur vals = Some (Returns (Success (cur\<lparr>val := Arr vals\<rparr>))))
   \<and> (rule (toInput cur) helpers = Some (Returns (Success out)) \<and> currentIndex out = currentIndex cur
      \<longrightarrow> zeroOrMore_loop rule helpers cur vals = Some (Returns (Success (cur\<lparr>val := Arr vals\<rparr>)))
        \<and> oneOrMore_loop rule helpers cur vals = Some (Returns (Success (cur\<lparr>val := Arr vals\<rparr>))))
   \<and> (rule (toInput cur) helpers = Some (Returns (Success out)) \<and> currentIndex out \<noteq> currentIndex cur
      \<longrightarrow> zeroOrMore_loop rule helpers cur vals =
            (if arrayLengthLimit \<le> length vals then Some (Throws RangeError)
             else zeroOrMore_loop rule helpers (out\<lparr>tokens := tokens cur @ tokens out\<rparr>)
                    (vals @ [val out]))
        \<and> oneOrMore_loop rule helpers cur vals =
            (if arrayLengthLimit \<le> length vals then Some (Throws RangeError)
             else oneOrMore_loop rule helpers (out\<lparr>tokens := tokens cur @ tokens out\<rparr>)
                    (vals @ [val out])))"
proof -
  have 1: "(\<forall>state. rule state helpers \<noteq> None)
      \<longrightarrow> (\<exists>res. zeroOrMore rule state helpers = Some res)
        \<and> (\<exists>res. oneOrMore rule state helpers = Some res)"
    using zeroOrMore_returns [of rule helpers state] oneOrMore_returns [of rule helpers state]
    by blast
  have 2: "rule (toInput cur) helpers = Some (Returns (Error e))
      \<longrightarrow> zeroOrMore_loop rule helpers cur vals = Some (Returns (Success (cur\<lparr>val := Arr vals\<rparr>)))"
    by (subst zeroOrMore_loop.simps) simp
  have 3: "rule (toInput cur) helpers = Some (Returns (Error e))
      \<longrightarrow> oneOrMore_loop rule helpers cur vals = Some (Returns (Success (cur\<lparr>val := Arr vals\<rparr>)))"
    by (subst oneOrMore_loop.simps) simp
  have 4: "rule (toInput cur) helpers = Some (Returns (Success out)) \<and> currentIndex out = currentIndex cur
      \<longrightarrow> zeroOrMore_loop rule helpers cur vals = Some (Returns (Success (cur\<lparr>val := Arr vals\<rparr>)))"
    by (subst zeroOrMore_loop.simps) simp
  have 5: "rule (toInput cur) helpers = Some (Returns (Success out)) \<and> currentIndex out = currentIndex cur
      \<longrightarrow> oneOrMore_loop rule helpers cur vals = Some (Returns (Success (cur\<lparr>val := Arr vals\<rparr>)))"
    by (subst oneOrMore_loop.simps) simp
  have 6: "rule (toInput cur) helpers = Some (Returns (Success out)) \<and> currentIndex out \<noteq> currentIndex cur
      \<longrightarrow> zeroOrMore_loop rule helpers cur vals =
            (if arrayLengthLimit \<le> length vals then Some (Throws RangeError)
             else zeroOrMore_loop rule helpers (out\<lparr>tokens := tokens cur @ tokens out\<rparr>)
                    (vals @ [val out]))"
    by (subst zeroOrMore_loop.simps) simp
  have 7: "rule (toInput cur) helpers = Some (Returns (Success out)) \<and> currentIndex out \<noteq> currentIndex cur
      \<longrightarrow> oneOrMore_loop rule helpers cur vals =
            (if arrayLengthLimit \<le> length vals then Some (Throws RangeError)
             else oneOrMore_loop rule helpers (out\<lparr>tokens := tokens cur @ tokens out\<rparr>)
                    (vals @ [val out]))"
    by (subst oneOrMore_loop.simps) simp
  show ?thesis using 1 2 3 4 5 6 7 by blast
qed

text \<open>
  The theorem at \<open>optional(token B)\<close>, a rule that succeeds without advancing where
  \<open>B\<close> does not match, on the token stream of \<open>bbc\<close>: the loop takes the two
  \<open>B\<close> and stops at the zero-length success.
\<close>

theorem repetition_terminates_witness:
  "(\<forall>state. optional (token ''B'') state helpers_bbc \<noteq> None)
   \<and> (\<exists>res. zeroOrMore (optional (token ''B'')) state_bbc helpers_bbc = Some res)
   \<and> (\<exists>res. oneOrMore (optional (token ''B'')) state_bbc helpers_bbc = Some res)
   \<and> zeroOrMore (optional (token ''B'')) state_bbc helpers_bbc =
       Some (Returns (Success \<lparr>input = input_bbc, source = ''bbc'', currentIndex = 2,
          val = Arr [TokenV \<lparr>type = ''B'', location = \<lparr>start = 0, end' = 1\<rparr>\<rparr>,
                     TokenV \<lparr>type = ''B'', location = \<lparr>start = 1, end' = 2\<rparr>\<rparr>],
          tokens = [\<lparr>type = ''B'', location = \<lparr>start = 0, end' = 1\<rparr>\<rparr>,
                    \<lparr>type = ''B'', location = \<lparr>start = 1, end' = 2\<rparr>\<rparr>]\<rparr>))"
proof -
  let ?tA = "\<lparr>type = ''B'', location = \<lparr>start = 0, end' = 1\<rparr>\<rparr>"
  let ?tB = "\<lparr>type = ''B'', location = \<lparr>start = 1, end' = 2\<rparr>\<rparr>"
  let ?r = "optional (token ''B'')"
  let ?s0 = "withValue state_bbc Null []"
  let ?o1 = "\<lparr>input = input_bbc, source = ''bbc'', currentIndex = 1, val = TokenV ?tA, tokens = [?tA]\<rparr>"
  let ?s1 = "?o1\<lparr>tokens := tokens ?s0 @ tokens ?o1\<rparr>"
  let ?o2 = "\<lparr>input = input_bbc, source = ''bbc'', currentIndex = 2, val = TokenV ?tB, tokens = [?tB]\<rparr>"
  let ?s2 = "?o2\<lparr>tokens := tokens ?s1 @ tokens ?o2\<rparr>"
  let ?o3 = "\<lparr>input = input_bbc, source = ''bbc'', currentIndex = 2, val = Null, tokens = []\<rparr>"
  have t: "\<forall>state. ?r state helpers_bbc \<noteq> None"
    by (simp add: optional_def token_def split: option.splits Completion.splits Result.splits)
  have r0: "?r (toInput ?s0) helpers_bbc = Some (Returns (Success ?o1))"
    and r1: "?r (toInput ?s1) helpers_bbc = Some (Returns (Success ?o2))"
    and r2: "?r (toInput ?s2) helpers_bbc = Some (Returns (Success ?o3))"
    by (simp_all add: optional_def ex_defs)
  have lim: "\<not> arrayLengthLimit \<le> length ([] :: Value list)"
    "\<not> arrayLengthLimit \<le> length ([] @ [val ?o1])"
    by (simp_all add: arrayLengthLimit_def)
  have i0: "currentIndex ?o1 \<noteq> currentIndex ?s0" and i1: "currentIndex ?o2 \<noteq> currentIndex ?s1"
    and i2: "currentIndex ?o3 = currentIndex ?s2"
    by (simp_all add: state_bbc_def)
  have s0: "zeroOrMore_loop ?r helpers_bbc ?s0 [] = zeroOrMore_loop ?r helpers_bbc ?s1 ([] @ [val ?o1])"
    using repetition_terminates [of ?r helpers_bbc state_bbc ?s0 _ "[]" ?o1] r0 i0 lim(1)
    by (simp only: simp_thms if_False)
  have s1: "zeroOrMore_loop ?r helpers_bbc ?s1 ([] @ [val ?o1]) =
            zeroOrMore_loop ?r helpers_bbc ?s2 (([] @ [val ?o1]) @ [val ?o2])"
    using repetition_terminates [of ?r helpers_bbc state_bbc ?s1 _ "[] @ [val ?o1]" ?o2] r1 i1 lim(2)
    by (simp only: simp_thms if_False)
  have s2: "zeroOrMore_loop ?r helpers_bbc ?s2 (([] @ [val ?o1]) @ [val ?o2]) =
            Some (Returns (Success (?s2\<lparr>val := Arr (([] @ [val ?o1]) @ [val ?o2])\<rparr>)))"
    using repetition_terminates [of ?r helpers_bbc state_bbc ?s2 _ "([] @ [val ?o1]) @ [val ?o2]" ?o3] r2 i2
    by (simp only: simp_thms)
  have v: "zeroOrMore ?r state_bbc helpers_bbc =
       Some (Returns (Success \<lparr>input = input_bbc, source = ''bbc'', currentIndex = 2,
          val = Arr [TokenV ?tA, TokenV ?tB], tokens = [?tA, ?tB]\<rparr>))"
    unfolding zeroOrMore_def s0 s1 s2 by (simp add: withValue_def)
  show ?thesis
    using t v repetition_terminates [of ?r helpers_bbc state_bbc] by blast
qed

text \<open>
  Claim C6. The driver \<open>parse\<close> succeeds only if the lexer succeeds, the rule of the
  root node type succeeds on the token stream from index 0 and the index it returns is
  the length of the token stream; the value is then the rule's value. If the root rule
  succeeds with an index smaller than the length of the token stream, the driver fails
  with a \<open>ParseError\<close> made from the message \<open>Expected end of input\<close>, the source
  and the location of the token at that index (the first token that was not consumed).
\<close>

theorem driver_requires_end_of_input:
  "(parse src g root = Some (Returns (Success v))
      \<longrightarrow> (\<exists>toks parser out. tokenize g src = Some (Success toks)
            \<and> map_of (rules g) root = Some parser
            \<and> parser \<lparr>input = toks, source = src, currentIndex = 0\<rparr> (parserHelpers toks src) =
                Some (Returns (Success out))
            \<and> currentIndex out = length toks \<and> v = val out))
   \<and> (tokenize g src = Some (Success toks)
        \<and> map_of (rules g) root = Some parser
        \<and> parser \<lparr>input = toks, source = src, currentIndex = 0\<rparr> (parserHelpers toks src) =
             Some (Returns (Success out))
        \<and> currentIndex out < length toks
      \<longrightarrow> parse src g root =
            Some (Returns (Error (ParseError ''Expected end of input'' src
                                    (location (toks ! currentIndex out))))))"
  by (auto simp: parse_def Parser_parse_def Let_def
           split: option.splits Result.splits Completion.splits if_splits)

theorem driver_requires_end_of_input_witness:
  "parse ''ab'' grammar_ab ''Root'' =
     Some (Returns (Error (ParseError ''Expected end of input'' ''ab'' \<lparr>start = 1, end' = 2\<rparr>)))
   \<and> parse ''a'' grammar_ab ''Root'' =
     Some (Returns (Success (AstNode ''Root''
        (TokenV \<lparr>type = ''A'', location = \<lparr>start = 0, end' = 1\<rparr>\<rparr>) [\<lparr>start = 0, end' = 1\<rparr>])))
   \<and> (\<exists>toks parser out. tokenize grammar_ab ''a'' = Some (Success toks)
        \<and> map_of (rules grammar_ab) ''Root'' = Some parser
        \<and> parser \<lparr>input = toks, source = ''a'', currentIndex = 0\<rparr> (parserHelpers toks ''a'') =
             Some (Returns (Success out))
        \<and> currentIndex out = length toks)"
proof -
  let ?tA = "\<lparr>type = ''A'', location = \<lparr>start = 0, end' = 1\<rparr>\<rparr>"
  let ?tB = "\<lparr>type = ''B'', location = \<lparr>start = 1, end' = 2\<rparr>\<rparr>"
  have run: "node ''Root'' (token ''A'') \<lparr>input = [?tA, ?tB], source = ''ab'', currentIndex = 0\<rparr>
               (parserHelpers [?tA, ?tB] ''ab'') =
             Some (Returns (Success \<lparr>input = [?tA, ?tB], source = ''ab'', currentIndex = 1,
                                     val = AstNode ''Root'' (TokenV ?tA) [\<lparr>start = 0, end' = 1\<rparr>],
                                     tokens = [?tA]\<rparr>))"
    by (simp add: node_def token_def parserHelpers_def withValue_def)
  have 1: "parse ''ab'' grammar_ab ''Root'' =
     Some (Returns (Error (ParseError ''Expected end of input'' ''ab'' \<lparr>start = 1, end' = 2\<rparr>)))"
    using driver_requires_end_of_input [of "''ab''" grammar_ab "''Root''" _ "[?tA, ?tB]" "node ''Root'' (token ''A'')"
                 "\<lparr>input = [?tA, ?tB], source = ''ab'', currentIndex = 1,
                                     val = AstNode ''Root'' (TokenV ?tA) [\<lparr>start = 0, end' = 1\<rparr>],
                                     tokens = [?tA]\<rparr>"]
          tokenize_ab rules_grammar_ab run
    by simp
  have 2: "parse ''a'' grammar_ab ''Root'' =
     Some (Returns (Success (AstNode ''Root'' (TokenV ?tA) [\<lparr>start = 0, end' = 1\<rparr>])))"
    by (simp add: parse_def tokenize_a Parser_parse_def rules_grammar_ab node_def token_def
          parserHelpers_def withValue_def)
  from 2 driver_requires_end_of_input [of "''a''" grammar_ab "''Root''"
               "AstNode ''Root'' (TokenV ?tA) [\<lparr>start = 0, end' = 1\<rparr>]"]
  have 3: "\<exists>toks parser out. tokenize grammar_ab ''a'' = Some (Success toks)
        \<and> map_of (rules grammar_ab) ''Root'' = Some parser
        \<and> parser \<lparr>input = toks, source = ''a'', currentIndex = 0\<rparr> (parserHelpers toks ''a'') =
             Some (Returns (Success out))
        \<and> currentIndex out = length toks"
    by blast
  show ?thesis using 1 2 3 by blast
qed

text \<open>
  Claim C1 (as amended). \<open>parseSyntaxGrammar\<close> takes as root the first non-terminal
  rule in declaration order, whatever its name. Without a non-terminal rule it throws
  \<open>Missing root rule in syntax grammar\<close>. With one, it returns a grammar whose root
  node type is the name of that first rule if the first character of the name equals
  its upper-case form, and throws \<open>Root rule must define an AST Node: <name>\<close>
  otherwise, whatever the rules after it are. For the names of the model (code units
  below 256) the first character differs from its upper-case form exactly if it is a
  lowercase letter that has one: \<open>a\<close> to \<open>z\<close>, the micro sign U+00B5, and U+00DF to
  U+00FF except the division sign U+00F7. So a name that begins with an uppercase
  letter is taken, and a name that begins with such a lowercase letter is refused.
\<close>

theorem root_rule_is_first_nonterminal:
  "((\<forall>r\<in>set rs. \<not> isNonTerminalRule r)
      \<longrightarrow> parseSyntaxGrammar n rs = Inl (SyntaxError ''Missing root rule in syntax grammar''))
   \<and> ((\<forall>r\<in>set terminals. \<not> isNonTerminalRule r)
        \<and> rs = terminals @ NonTerminalRuleNode name body # rest
      \<longrightarrow> (if isNodeTypeIdentifier name
           then \<exists>g. parseSyntaxGrammar n rs = Inr \<lparr>parsedGrammar = g, parsedRootNodeType = name\<rparr>
           else parseSyntaxGrammar n rs =
                  Inl (SyntaxError (''Root rule must define an AST Node: '' @ name))))
   \<and> (isNodeTypeIdentifier (c # cs)
        \<longleftrightarrow> \<not> ((97 \<le> (of_char c :: nat) \<and> (of_char c :: nat) \<le> 122)
               \<or> (of_char c :: nat) = 181
               \<or> (223 \<le> (of_char c :: nat) \<and> (of_char c :: nat) \<noteq> 247)))
   \<and> isNodeTypeIdentifier []"
proof -
  have 1: "(\<forall>r\<in>set rs. \<not> isNonTerminalRule r)
      \<longrightarrow> parseSyntaxGrammar n rs = Inl (SyntaxError ''Missing root rule in syntax grammar'')"
  proof
    assume "\<forall>r\<in>set rs. \<not> isNonTerminalRule r"
    then have "find isNonTerminalRule rs = None" by (simp add: find_None_iff)
    then show "parseSyntaxGrammar n rs = Inl (SyntaxError ''Missing root rule in syntax grammar'')"
      by (simp add: parseSyntaxGrammar_def)
  qed
  have 2: "(\<forall>r\<in>set terminals. \<not> isNonTerminalRule r)
        \<and> rs = terminals @ NonTerminalRuleNode name body # rest
      \<longrightarrow> (if isNodeTypeIdentifier name
           then \<exists>g. parseSyntaxGrammar n rs = Inr \<lparr>parsedGrammar = g, parsedRootNodeType = name\<rparr>
           else parseSyntaxGrammar n rs =
                  Inl (SyntaxError (''Root rule must define an AST Node: '' @ name)))"
  proof
    assume a: "(\<forall>r\<in>set terminals. \<not> isNonTerminalRule r)
        \<and> rs = terminals @ NonTerminalRuleNode name body # rest"
    then have "find isNonTerminalRule rs = Some (NonTerminalRuleNode name body)"
      using find_first [of terminals isNonTerminalRule "NonTerminalRuleNode name body" rest] by simp
    then show "if isNodeTypeIdentifier name
           then \<exists>g. parseSyntaxGrammar n rs = Inr \<lparr>parsedGrammar = g, parsedRootNodeType = name\<rparr>
           else parseSyntaxGrammar n rs =
                  Inl (SyntaxError (''Root rule must define an AST Node: '' @ name))"
      by (simp add: parseSyntaxGrammar_def Let_def)
  qed
  have 4: "isNodeTypeIdentifier []"
    by (simp add: isNodeTypeIdentifier_def codeUnits_def toUpperCase_def)
  show ?thesis using 1 2 4 isNodeTypeIdentifier_Cons [of c cs] by blast
qed

text \<open>
  The theorem at the rules \<open>A ::= "a"\<close>, \<open><Root> ::= A\<close>, \<open><Other> ::= A\<close>
  (root \<open>Root\<close>), at the same rules with \<open>root\<close> for \<open>Root\<close> (rejected, although
  \<open>Other\<close> follows), and at the terminal rule alone (rejected); a name that begins
  with the letter U+00E9 is not the name of a node type.
\<close>

theorem root_rule_is_first_nonterminal_witness:
  "(\<exists>g. parseSyntaxGrammar 1
      [TerminalRuleNode ''A'' (LiteralNode ''a''),
       NonTerminalRuleNode ''Root'' (TerminalIdentifierNode ''A''),
       NonTerminalRuleNode ''Other'' (TerminalIdentifierNode ''A'')] =
     Inr \<lparr>parsedGrammar = g, parsedRootNodeType = ''Root''\<rparr>)
   \<and> parseSyntaxGrammar 1
      [TerminalRuleNode ''A'' (LiteralNode ''a''),
       NonTerminalRuleNode ''root'' (TerminalIdentifierNode ''A''),
       NonTerminalRuleNode ''Other'' (TerminalIdentifierNode ''A'')] =
     Inl (SyntaxError ''Root rule must define an AST Node: root'')
   \<and> parseSyntaxGrammar 1 [TerminalRuleNode ''A'' (LiteralNode ''a'')] =
     Inl (SyntaxError ''Missing root rule in syntax grammar'')
   \<and> \<not> isNodeTypeIdentifier [CHR 0xE9, CHR ''x'']"
proof -
  have u: "isNodeTypeIdentifier ''Root''" "\<not> isNodeTypeIdentifier ''root''" "\<not> isNodeTypeIdentifier [CHR 0xE9, CHR ''x'']"
    by (simp_all add: isNodeTypeIdentifier_Cons)
  have 1: "\<exists>g. parseSyntaxGrammar 1
      [TerminalRuleNode ''A'' (LiteralNode ''a''),
       NonTerminalRuleNode ''Root'' (TerminalIdentifierNode ''A''),
       NonTerminalRuleNode ''Other'' (TerminalIdentifierNode ''A'')] =
     Inr \<lparr>parsedGrammar = g, parsedRootNodeType = ''Root''\<rparr>"
    using root_rule_is_first_nonterminal [of _ 1 "[TerminalRuleNode ''A'' (LiteralNode ''a'')]" "''Root''" "TerminalIdentifierNode ''A''"
                 "[NonTerminalRuleNode ''Other'' (TerminalIdentifierNode ''A'')]"] u
    by simp
  have 2: "parseSyntaxGrammar 1
      [TerminalRuleNode ''A'' (LiteralNode ''a''),
       NonTerminalRuleNode ''root'' (TerminalIdentifierNode ''A''),
       NonTerminalRuleNode ''Other'' (TerminalIdentifierNode ''A'')] =
     Inl (SyntaxError ''Root rule must define an AST Node: root'')"
    using root_rule_is_first_nonterminal [of _ 1 "[TerminalRuleNode ''A'' (LiteralNode ''a'')]" "''root''" "TerminalIdentifierNode ''A''"
                 "[NonTerminalRuleNode ''Other'' (TerminalIdentifierNode ''A'')]"] u
    by simp
  have 3: "parseSyntaxGrammar 1 [TerminalRuleNode ''A'' (LiteralNode ''a'')] =
     Inl (SyntaxError ''Missing root rule in syntax grammar'')"
    using root_rule_is_first_nonterminal [of "[TerminalRuleNode ''A'' (LiteralNode ''a'')]" 1]
    by simp
  show ?thesis using 1 2 3 u by blast
qed

text \<open>
  Counterexample to claim C1 as stated: the rules \<open><expr> ::= ""\<close> and
  \<open><Program> ::= <expr>\<close>. By the claim the root is \<open>Program\<close>, the first non-terminal
  rule whose name begins with an uppercase letter, and a grammar is returned. The
  source takes \<open>expr\<close>, the first non-terminal rule, and throws.
\<close>

theorem root_rule_lowercase_first_counterexample:
  "(\<forall>n. parseSyntaxGrammar n
      [NonTerminalRuleNode ''expr'' EmptyNode,
       NonTerminalRuleNode ''Program'' (NonTerminalIdentifierNode ''expr'')] =
     Inl (SyntaxError ''Root rule must define an AST Node: expr''))
   \<and> isNonTerminalRule (NonTerminalRuleNode ''Program'' (NonTerminalIdentifierNode ''expr''))
   \<and> isNodeTypeIdentifier ''Program''
   \<and> \<not> isNodeTypeIdentifier ''expr''"
  by (simp add: parseSyntaxGrammar_def isNodeTypeIdentifier_Cons)

text \<open>
  Claim C7 (as amended). With \<open>minLength \<le> 0\<close> the list is the list of minimum
  length 1 where that one succeeds, and succeeds with the empty list, on the state it
  was given, where that one fails; \<open>list(item, separator)\<close> without options is the
  list of minimum length 0. Every success of a list of minimum length at least 1, and
  every success of any list on a state where the item succeeds, consists of the item
  followed by \<open>n\<close> times the separator and the item (\<open>n + 1 \<ge> minLength\<close>): its value
  is the list of the item values in order, of length \<open>1 + n\<close>, its final state is the
  state after the last item, and the list has taken every pair that is there: on the
  final state the separator followed by the item fails, or succeeds without advancing.
  Where the item fails on the state the list is given (a leading separator), a list of
  minimum length at least 1 fails with the error of the item, and a list of minimum
  length 0 succeeds with the empty list without consuming anything. Where the item is
  followed by a separator that no item follows (a trailing separator), a list of
  minimum length at most 1 succeeds with the one item on the state after the item: the
  separator is not consumed. Where a list is the root rule of the grammar and succeeds
  before the end of the token stream, the driver fails with
  \<open>Expected end of input\<close> at the first token that is left.
\<close>

theorem list_items_and_separators:
  "(minLength \<le> 0
      \<longrightarrow> createListMatcher item separator minLength state helpers =
          (case createListMatcher item separator 1 state helpers of
             None \<Rightarrow> None
           | Some (Throws x) \<Rightarrow> Some (Throws x)
           | Some (Returns (Error e)) \<Rightarrow> Some (Returns (Success (withValue state (Arr []) [])))
           | Some (Returns (Success out)) \<Rightarrow> Some (Returns (Success out))))
   \<and> list_rule item separator None = createListMatcher item separator 0
   \<and> list_rule item separator (Some minLength) = createListMatcher item separator minLength
   \<and> (createListMatcher item separator minLength state helpers = Some (Returns (Success out))
        \<and> (1 \<le> minLength \<or> (\<exists>first. item state helpers = Some (Returns (Success first))))
      \<longrightarrow> (\<exists>first n vs. item state helpers = Some (Returns (Success first))
            \<and> separated_items item separator helpers (toInput first) n vs (toInput out)
            \<and> val out = Arr (val first # vs) \<and> length (val first # vs) = 1 + n
            \<and> nat minLength \<le> 1 + n)
          \<and> ((\<exists>e. tailItem item separator (toInput out) helpers = Some (Returns (Error e)))
             \<or> (\<exists>s. tailItem item separator (toInput out) helpers = Some (Returns (Success s))
                    \<and> currentIndex s = currentIndex out)))
   \<and> (item state helpers = Some (Returns (Error e))
      \<longrightarrow> (1 \<le> minLength
             \<longrightarrow> createListMatcher item separator minLength state helpers = Some (Returns (Error e)))
        \<and> (minLength \<le> 0
             \<longrightarrow> createListMatcher item separator minLength state helpers =
                 Some (Returns (Success (withValue state (Arr []) [])))))
   \<and> (item state helpers = Some (Returns (Success first))
        \<and> separator (toInput first) helpers = Some (Returns (Success sepState))
        \<and> item (toInput sepState) helpers = Some (Returns (Error e))
        \<and> minLength \<le> 1
      \<longrightarrow> createListMatcher item separator minLength state helpers =
            Some (Returns (Success (withValue (toInput first) (Arr [val first]) (tokens first)))))
   \<and> (map_of (rules g) root = Some (list_rule item separator options)
        \<and> list_rule item separator options \<lparr>input = toks, source = src, currentIndex = 0\<rparr>
             (parserHelpers toks src) = Some (Returns (Success out))
        \<and> currentIndex out < length toks
      \<longrightarrow> Parser_parse g toks src root =
            Some (Returns (Error (ParseError ''Expected end of input'' src
                                    (location (toks ! currentIndex out))))))"
proof -
  have 1: "(minLength \<le> 0
      \<longrightarrow> createListMatcher item separator minLength state helpers =
          (case createListMatcher item separator 1 state helpers of
             None \<Rightarrow> None
           | Some (Throws x) \<Rightarrow> Some (Throws x)
           | Some (Returns (Error e)) \<Rightarrow> Some (Returns (Success (withValue state (Arr []) [])))
           | Some (Returns (Success out)) \<Rightarrow> Some (Returns (Success out))))"
    using createListMatcher_optional by blast
  have 2: "list_rule item separator None = createListMatcher item separator 0"
    "list_rule item separator (Some minLength) = createListMatcher item separator minLength"
    by (simp_all add: list_rule_def)
  have 3: "(createListMatcher item separator minLength state helpers = Some (Returns (Success out))
        \<and> (1 \<le> minLength \<or> (\<exists>first. item state helpers = Some (Returns (Success first))))
      \<longrightarrow> (\<exists>first n vs. item state helpers = Some (Returns (Success first))
            \<and> separated_items item separator helpers (toInput first) n vs (toInput out)
            \<and> val out = Arr (val first # vs) \<and> length (val first # vs) = 1 + n
            \<and> nat minLength \<le> 1 + n)
          \<and> ((\<exists>e. tailItem item separator (toInput out) helpers = Some (Returns (Error e)))
             \<or> (\<exists>s. tailItem item separator (toInput out) helpers = Some (Returns (Success s))
                    \<and> currentIndex s = currentIndex out)))"
    using createListMatcher_success_any [of item separator minLength state helpers out]
          createListMatcher_stops_any [of item separator minLength state helpers out]
    by blast
  have 4: "(item state helpers = Some (Returns (Error e))
      \<longrightarrow> (1 \<le> minLength
             \<longrightarrow> createListMatcher item separator minLength state helpers = Some (Returns (Error e)))
        \<and> (minLength \<le> 0
             \<longrightarrow> createListMatcher item separator minLength state helpers =
                 Some (Returns (Success (withValue state (Arr []) [])))))"
    using createListMatcher_item_fails [of item state helpers e minLength separator] by blast
  have 5: "(item state helpers = Some (Returns (Success first))
        \<and> separator (toInput first) helpers = Some (Returns (Success sepState))
        \<and> item (toInput sepState) helpers = Some (Returns (Error e))
        \<and> minLength \<le> 1
      \<longrightarrow> createListMatcher item separator minLength state helpers =
            Some (Returns (Success (withValue (toInput first) (Arr [val first]) (tokens first)))))"
    using createListMatcher_trailing_separator [of item state helpers first separator sepState e minLength]
    by blast
  have 6: "(map_of (rules g) root = Some (list_rule item separator options)
        \<and> list_rule item separator options \<lparr>input = toks, source = src, currentIndex = 0\<rparr>
             (parserHelpers toks src) = Some (Returns (Success out))
        \<and> currentIndex out < length toks
      \<longrightarrow> Parser_parse g toks src root =
            Some (Returns (Error (ParseError ''Expected end of input'' src
                                    (location (toks ! currentIndex out))))))"
    by (simp add: Parser_parse_def)
  show ?thesis using 1 2 3 4 5 6 by blast
qed

text \<open>
  The theorem at the list of \<open>Foo\<close> separated by \<open>Comma\<close>: on \<open>foo,foo,\<close> the list
  succeeds with the two items at index 3, before the trailing comma, and the driver
  fails at that comma; from index 2 the list succeeds with the one item at index 3; on
  \<open>,foo\<close> the list of minimum length 1 fails at the leading comma and the list of
  minimum length 0 succeeds with the empty list.
\<close>

theorem list_items_and_separators_witness:
  "(\<exists>out first n vs.
      createListMatcher (token ''Foo'') (token ''Comma'') 0 state_foo_list
        (parserHelpers input_foo_list ''foo,foo,'') = Some (Returns (Success out))
      \<and> token ''Foo'' state_foo_list (parserHelpers input_foo_list ''foo,foo,'') =
            Some (Returns (Success first))
      \<and> separated_items (token ''Foo'') (token ''Comma'') (parserHelpers input_foo_list ''foo,foo,'')
            (toInput first) n vs (toInput out)
      \<and> val out = Arr (val first # vs) \<and> length (val first # vs) = 1 + n
      \<and> val out = Arr [TokenV \<lparr>type = ''Foo'', location = \<lparr>start = 0, end' = 3\<rparr>\<rparr>,
                       TokenV \<lparr>type = ''Foo'', location = \<lparr>start = 4, end' = 7\<rparr>\<rparr>]
      \<and> currentIndex out = 3)
   \<and> Parser_parse grammar_list input_foo_list ''foo,foo,'' ''List'' =
       Some (Returns (Error (ParseError ''Expected end of input'' ''foo,foo,''
                               \<lparr>start = 7, end' = 8\<rparr>)))
   \<and> createListMatcher (token ''Foo'') (token ''Comma'') 1 state_comma_foo
        (parserHelpers input_comma_foo '',foo'') =
       Some (Returns (Error (ParserRuleError ''Expected token: Foo'' \<lparr>start = 0, end' = 1\<rparr>)))
   \<and> createListMatcher (token ''Foo'') (token ''Comma'') 0 state_comma_foo
        (parserHelpers input_comma_foo '',foo'') =
       Some (Returns (Success (withValue state_comma_foo (Arr []) [])))
   \<and> createListMatcher (token ''Foo'') (token ''Comma'') 0
        \<lparr>input = input_foo_list, source = ''foo,foo,'', currentIndex = 2\<rparr>
        (parserHelpers input_foo_list ''foo,foo,'') =
       Some (Returns (Success
         \<lparr>input = input_foo_list, source = ''foo,foo,'', currentIndex = 3,
          val = Arr [TokenV \<lparr>type = ''Foo'', location = \<lparr>start = 4, end' = 7\<rparr>\<rparr>],
          tokens = [\<lparr>type = ''Foo'', location = \<lparr>start = 4, end' = 7\<rparr>\<rparr>]\<rparr>))"
proof -
  let ?H = "parserHelpers input_foo_list ''foo,foo,''"
  let ?out = "\<lparr>input = input_foo_list, source = ''foo,foo,'', currentIndex = 3,
      val = Arr [TokenV \<lparr>type = ''Foo'', location = \<lparr>start = 0, end' = 3\<rparr>\<rparr>,
                 TokenV \<lparr>type = ''Foo'', location = \<lparr>start = 4, end' = 7\<rparr>\<rparr>],
      tokens = [\<lparr>type = ''Foo'', location = \<lparr>start = 0, end' = 3\<rparr>\<rparr>,
                \<lparr>type = ''Comma'', location = \<lparr>start = 3, end' = 4\<rparr>\<rparr>,
                \<lparr>type = ''Foo'', location = \<lparr>start = 4, end' = 7\<rparr>\<rparr>]\<rparr>"
  have first: "\<exists>first. token ''Foo'' state_foo_list ?H = Some (Returns (Success first))"
    by (simp add: list_ex_defs)
  have fails: "token ''Foo'' state_comma_foo (parserHelpers input_comma_foo '',foo'') =
      Some (Returns (Error (ParserRuleError ''Expected token: Foo'' \<lparr>start = 0, end' = 1\<rparr>)))"
    by (simp add: list_ex_defs)
  have len: "currentIndex ?out < length input_foo_list" "input_foo_list ! 3 =
      \<lparr>type = ''Comma'', location = \<lparr>start = 7, end' = 8\<rparr>\<rparr>"
    by (simp_all add: input_foo_list_def)
  have run: "list_rule (token ''Foo'') (token ''Comma'') None
      \<lparr>input = input_foo_list, source = ''foo,foo,'', currentIndex = 0\<rparr> ?H =
      Some (Returns (Success ?out))"
    using list_foo_list by (simp add: list_rule_def state_foo_list_def)
  have A: "\<exists>first n vs. token ''Foo'' state_foo_list ?H = Some (Returns (Success first))
      \<and> separated_items (token ''Foo'') (token ''Comma'') ?H (toInput first) n vs (toInput ?out)
      \<and> val ?out = Arr (val first # vs) \<and> length (val first # vs) = 1 + n"
    using list_items_and_separators [where minLength = 0 and item = "token ''Foo''" and separator = "token ''Comma''"
                and state = state_foo_list and helpers = ?H and out = ?out]
          list_foo_list first
    by simp
  have B: "Parser_parse grammar_list input_foo_list ''foo,foo,'' ''List'' =
       Some (Returns (Error (ParseError ''Expected end of input'' ''foo,foo,''
                               \<lparr>start = 7, end' = 8\<rparr>)))"
    using list_items_and_separators [where g = grammar_list and root = "''List''" and item = "token ''Foo''"
                and separator = "token ''Comma''" and options = None and toks = input_foo_list
                and src = "''foo,foo,''" and out = ?out]
          rules_grammar_list run len
    by simp
  have C: "createListMatcher (token ''Foo'') (token ''Comma'') 1 state_comma_foo
        (parserHelpers input_comma_foo '',foo'') =
       Some (Returns (Error (ParserRuleError ''Expected token: Foo'' \<lparr>start = 0, end' = 1\<rparr>)))"
    using list_items_and_separators [where minLength = 1 and item = "token ''Foo''" and separator = "token ''Comma''"
                and state = state_comma_foo and helpers = "parserHelpers input_comma_foo '',foo''"
                and e = "ParserRuleError ''Expected token: Foo'' \<lparr>start = 0, end' = 1\<rparr>"]
          fails
    by simp
  have D: "createListMatcher (token ''Foo'') (token ''Comma'') 0 state_comma_foo
        (parserHelpers input_comma_foo '',foo'') =
       Some (Returns (Success (withValue state_comma_foo (Arr []) [])))"
    using list_items_and_separators [where minLength = 0 and item = "token ''Foo''" and separator = "token ''Comma''"
                and state = state_comma_foo and helpers = "parserHelpers input_comma_foo '',foo''"
                and e = "ParserRuleError ''Expected token: Foo'' \<lparr>start = 0, end' = 1\<rparr>"]
          fails order_refl [of "0 :: int"]
    by blast
  let ?f = "\<lparr>input = input_foo_list, source = ''foo,foo,'', currentIndex = 3,
             val = TokenV \<lparr>type = ''Foo'', location = \<lparr>start = 4, end' = 7\<rparr>\<rparr>,
             tokens = [\<lparr>type = ''Foo'', location = \<lparr>start = 4, end' = 7\<rparr>\<rparr>]\<rparr>"
  let ?c = "\<lparr>input = input_foo_list, source = ''foo,foo,'', currentIndex = 4,
             val = TokenV \<lparr>type = ''Comma'', location = \<lparr>start = 7, end' = 8\<rparr>\<rparr>,
             tokens = [\<lparr>type = ''Comma'', location = \<lparr>start = 7, end' = 8\<rparr>\<rparr>]\<rparr>"
  have t1: "token ''Foo'' \<lparr>input = input_foo_list, source = ''foo,foo,'', currentIndex = 2\<rparr> ?H =
              Some (Returns (Success ?f))"
    and t2: "token ''Comma'' (toInput ?f) ?H = Some (Returns (Success ?c))"
    and t3: "token ''Foo'' (toInput ?c) ?H =
              Some (Returns (Error (ParserRuleError ''Expected token: Foo'' \<lparr>start = 8, end' = 8\<rparr>)))"
    by (simp_all add: list_ex_defs withValue_def toInput_def)
  have E: "createListMatcher (token ''Foo'') (token ''Comma'') 0
        \<lparr>input = input_foo_list, source = ''foo,foo,'', currentIndex = 2\<rparr> ?H =
       Some (Returns (Success (withValue (toInput ?f) (Arr [val ?f]) (tokens ?f))))"
    using list_items_and_separators [where minLength = 0 and item = "token ''Foo''" and separator = "token ''Comma''"
                and state = "\<lparr>input = input_foo_list, source = ''foo,foo,'', currentIndex = 2\<rparr>"
                and helpers = ?H and first = ?f and sepState = ?c
                and e = "ParserRuleError ''Expected token: Foo'' \<lparr>start = 8, end' = 8\<rparr>"]
          t1 t2 t3 zero_le_one [where 'a = int]
    by blast
  have E': "createListMatcher (token ''Foo'') (token ''Comma'') 0
        \<lparr>input = input_foo_list, source = ''foo,foo,'', currentIndex = 2\<rparr> ?H =
       Some (Returns (Success
         \<lparr>input = input_foo_list, source = ''foo,foo,'', currentIndex = 3,
          val = Arr [TokenV \<lparr>type = ''Foo'', location = \<lparr>start = 4, end' = 7\<rparr>\<rparr>],
          tokens = [\<lparr>type = ''Foo'', location = \<lparr>start = 4, end' = 7\<rparr>\<rparr>]\<rparr>))"
    unfolding E by (simp add: withValue_def toInput_def)
  from A obtain first n vs where
    a: "token ''Foo'' state_foo_list ?H = Some (Returns (Success first))"
       "separated_items (token ''Foo'') (token ''Comma'') ?H (toInput first) n vs (toInput ?out)"
       "val ?out = Arr (val first # vs)" "length (val first # vs) = 1 + n"
    by blast
  have "\<exists>out first n vs.
      createListMatcher (token ''Foo'') (token ''Comma'') 0 state_foo_list ?H = Some (Returns (Success out))
      \<and> token ''Foo'' state_foo_list ?H = Some (Returns (Success first))
      \<and> separated_items (token ''Foo'') (token ''Comma'') ?H (toInput first) n vs (toInput out)
      \<and> val out = Arr (val first # vs) \<and> length (val first # vs) = 1 + n
      \<and> val out = Arr [TokenV \<lparr>type = ''Foo'', location = \<lparr>start = 0, end' = 3\<rparr>\<rparr>,
                       TokenV \<lparr>type = ''Foo'', location = \<lparr>start = 4, end' = 7\<rparr>\<rparr>]
      \<and> currentIndex out = 3"
    apply (rule exI [of _ ?out])
    apply (rule exI [of _ first])
    apply (rule exI [of _ n])
    apply (rule exI [of _ vs])
    using list_foo_list a by simp
  with B C D E' show ?thesis by blast
qed

text \<open>
  Counterexample to claim C7 as stated. On \<open>,foo\<close> the list \<open>list(Foo, Comma)\<close> does
  not fail on the leading separator: it succeeds with the empty list at index 0, and
  the enclosing rule \<open>sequence(list(Foo, Comma), Comma, Foo)\<close> succeeds on the whole
  token stream. On \<open>foo,foo,\<close> the trailing separator does not make the enclosing rule
  \<open>sequence(list(Foo, Comma), Comma)\<close> fail: it succeeds on the whole token stream.
\<close>

theorem list_separator_accepted_counterexample:
  "list_rule (token ''Foo'') (token ''Comma'') None state_comma_foo
     (parserHelpers input_comma_foo '',foo'') =
     Some (Returns (Success \<lparr>input = input_comma_foo, source = '',foo'', currentIndex = 0,
                               val = Arr [], tokens = []\<rparr>))
   \<and> sequence [list_rule (token ''Foo'') (token ''Comma'') None, token ''Comma'', token ''Foo'']
       state_comma_foo (parserHelpers input_comma_foo '',foo'') =
     Some (Returns (Success \<lparr>input = input_comma_foo, source = '',foo'', currentIndex = 2,
        val = Arr [Arr [], TokenV \<lparr>type = ''Comma'', location = \<lparr>start = 0, end' = 1\<rparr>\<rparr>,
                   TokenV \<lparr>type = ''Foo'', location = \<lparr>start = 1, end' = 4\<rparr>\<rparr>],
        tokens = [\<lparr>type = ''Comma'', location = \<lparr>start = 0, end' = 1\<rparr>\<rparr>,
                  \<lparr>type = ''Foo'', location = \<lparr>start = 1, end' = 4\<rparr>\<rparr>]\<rparr>))
   \<and> length input_comma_foo = 2
   \<and> sequence [list_rule (token ''Foo'') (token ''Comma'') None, token ''Comma'']
       state_foo_list (parserHelpers input_foo_list ''foo,foo,'') =
     Some (Returns (Success \<lparr>input = input_foo_list, source = ''foo,foo,'', currentIndex = 4,
        val = Arr [Arr [TokenV \<lparr>type = ''Foo'', location = \<lparr>start = 0, end' = 3\<rparr>\<rparr>,
                        TokenV \<lparr>type = ''Foo'', location = \<lparr>start = 4, end' = 7\<rparr>\<rparr>],
                   TokenV \<lparr>type = ''Comma'', location = \<lparr>start = 7, end' = 8\<rparr>\<rparr>],
        tokens = [\<lparr>type = ''Foo'', location = \<lparr>start = 0, end' = 3\<rparr>\<rparr>,
                  \<lparr>type = ''Comma'', location = \<lparr>start = 3, end' = 4\<rparr>\<rparr>,
                  \<lparr>type = ''Foo'', location = \<lparr>start = 4, end' = 7\<rparr>\<rparr>,
                  \<lparr>type = ''Comma'', location = \<lparr>start = 7, end' = 8\<rparr>\<rparr>]\<rparr>))
   \<and> length input_foo_list = 4"
proof -
  have l0: "list_rule (token ''Foo'') (token ''Comma'') None state_comma_foo
     (parserHelpers input_comma_foo '',foo'') =
     Some (Returns (Success \<lparr>input = input_comma_foo, source = '',foo'', currentIndex = 0,
                               val = Arr [], tokens = []\<rparr>))"
    by (simp add: list_rule_def createListMatcher.simps [of _ _ 0] createListMatcher.simps [of _ _ 1]
        repeat_def tailItem_def map_rule_def optional_def
        sequence_def zeroOrMore_def zeroOrMore_loop.simps combineListResults_def slice_def
        withValue_def toInput_def list_ex_defs arrayLengthLimit_def)
  have l1: "list_rule (token ''Foo'') (token ''Comma'') None state_foo_list
     (parserHelpers input_foo_list ''foo,foo,'') =
   Some (Returns (Success
     \<lparr>input = input_foo_list, source = ''foo,foo,'', currentIndex = 3,
      val = Arr [TokenV \<lparr>type = ''Foo'', location = \<lparr>start = 0, end' = 3\<rparr>\<rparr>,
                 TokenV \<lparr>type = ''Foo'', location = \<lparr>start = 4, end' = 7\<rparr>\<rparr>],
      tokens = [\<lparr>type = ''Foo'', location = \<lparr>start = 0, end' = 3\<rparr>\<rparr>,
                \<lparr>type = ''Comma'', location = \<lparr>start = 3, end' = 4\<rparr>\<rparr>,
                \<lparr>type = ''Foo'', location = \<lparr>start = 4, end' = 7\<rparr>\<rparr>]\<rparr>))"
    using list_foo_list by (simp add: list_rule_def)
  have s0: "sequence [list_rule (token ''Foo'') (token ''Comma'') None, token ''Comma'', token ''Foo'']
       state_comma_foo (parserHelpers input_comma_foo '',foo'') =
     Some (Returns (Success \<lparr>input = input_comma_foo, source = '',foo'', currentIndex = 2,
        val = Arr [Arr [], TokenV \<lparr>type = ''Comma'', location = \<lparr>start = 0, end' = 1\<rparr>\<rparr>,
                   TokenV \<lparr>type = ''Foo'', location = \<lparr>start = 1, end' = 4\<rparr>\<rparr>],
        tokens = [\<lparr>type = ''Comma'', location = \<lparr>start = 0, end' = 1\<rparr>\<rparr>,
                  \<lparr>type = ''Foo'', location = \<lparr>start = 1, end' = 4\<rparr>\<rparr>]\<rparr>))"
    by (simp add: sequence_def l0) (simp add: list_ex_defs withValue_def toInput_def)
  have s1: "sequence [list_rule (token ''Foo'') (token ''Comma'') None, token ''Comma'']
       state_foo_list (parserHelpers input_foo_list ''foo,foo,'') =
     Some (Returns (Success \<lparr>input = input_foo_list, source = ''foo,foo,'', currentIndex = 4,
        val = Arr [Arr [TokenV \<lparr>type = ''Foo'', location = \<lparr>start = 0, end' = 3\<rparr>\<rparr>,
                        TokenV \<lparr>type = ''Foo'', location = \<lparr>start = 4, end' = 7\<rparr>\<rparr>],
                   TokenV \<lparr>type = ''Comma'', location = \<lparr>start = 7, end' = 8\<rparr>\<rparr>],
        tokens = [\<lparr>type = ''Foo'', location = \<lparr>start = 0, end' = 3\<rparr>\<rparr>,
                  \<lparr>type = ''Comma'', location = \<lparr>start = 3, end' = 4\<rparr>\<rparr>,
                  \<lparr>type = ''Foo'', location = \<lparr>start = 4, end' = 7\<rparr>\<rparr>,
                  \<lparr>type = ''Comma'', location = \<lparr>start = 7, end' = 8\<rparr>\<rparr>]\<rparr>))"
    by (simp add: sequence_def l1) (simp add: list_ex_defs withValue_def toInput_def)
  show ?thesis using l0 s0 s1 by (simp add: input_comma_foo_def input_foo_list_def)
qed

text \<open>
  Claim C3. \<open>extendGrammar\<close> returns a grammar with the tokens of the grammar it is
  given and the rules of that grammar with the new rules merged over them. The handle
  that the new factories receive is the table of accessors of the new rules alone: its
  keys are the keys of the extension. For \<open>grammar_ab\<close> extended by \<open>Wrapper\<close>, whose
  factory reads \<open>Root\<close> from the handle: the merged grammar has the rules \<open>Root\<close> and
  \<open>Wrapper\<close> and still parses \<open>a\<close> from \<open>Root\<close>, the handle has the key \<open>Wrapper\<close>
  only, and parsing \<open>a\<close> from \<open>Wrapper\<close> throws a \<open>TypeError\<close>, where the grammar
  that \<open>createGrammar\<close> makes of both rules returns the node \<open>Wrapper\<close> of the node
  \<open>Root\<close>.
\<close>

theorem extendGrammar_handle_has_only_new_rules:
  "map_of (rules (extendGrammar n g rs)) =
     map_of (rules g) ++ map_of (rev (createLazyRuleAccessors n rs))
   \<and> ruleInstances (Suc n) rs =
       map (\<lambda>(key, ruleFactory). (key, ruleFactory (createLazyRuleAccessors n rs))) rs
   \<and> map fst (createLazyRuleAccessors n rs) = map fst rs
   \<and> tokenTypes (extendGrammar (Suc n) grammar_ab extension_wrapper) = tokenTypes grammar_ab
   \<and> map fst (rules (extendGrammar (Suc n) grammar_ab extension_wrapper)) = [''Root'', ''Wrapper'']
   \<and> ruleInstances (Suc n) extension_wrapper =
       [(''Wrapper'', node ''Wrapper'' (getRule (createLazyRuleAccessors n extension_wrapper) ''Root''))]
   \<and> map fst (createLazyRuleAccessors n extension_wrapper) = [''Wrapper'']
   \<and> parse ''a'' (extendGrammar (Suc n) grammar_ab extension_wrapper) ''Root'' =
       Some (Returns (Success
         (AstNode ''Root'' (TokenV \<lparr>type = ''A'', location = \<lparr>start = 0, end' = 1\<rparr>\<rparr>)
            [\<lparr>start = 0, end' = 1\<rparr>])))
   \<and> parse ''a'' (extendGrammar (Suc n) grammar_ab extension_wrapper) ''Wrapper'' =
       Some (Throws TypeError)
   \<and> parse ''a'' (grammar_ab_wrapper (Suc (Suc n))) ''Wrapper'' =
       Some (Returns (Success
         (AstNode ''Wrapper''
            (AstNode ''Root'' (TokenV \<lparr>type = ''A'', location = \<lparr>start = 0, end' = 1\<rparr>\<rparr>)
               [\<lparr>start = 0, end' = 1\<rparr>])
            [\<lparr>start = 0, end' = 1\<rparr>])))"
proof -
  have tok: "tokenize (grammar_ab_wrapper (Suc (Suc n))) ''a'' =
       Some (Success [\<lparr>type = ''A'', location = \<lparr>start = 0, end' = 1\<rparr>\<rparr>])"
    by (simp add: tokenize_def tokenize_loop.simps grammar_ab_wrapper_def grammar_defs)
  have 1: "tokenTypes (extendGrammar (Suc n) grammar_ab extension_wrapper) = tokenTypes grammar_ab"
    by (rule tokenTypes_extendGrammar)
  have 2: "map fst (rules (extendGrammar (Suc n) grammar_ab extension_wrapper)) = [''Root'', ''Wrapper'']"
    by (simp add: extendGrammar_def grammar_ab_def extension_wrapper_def createGrammar_def
          createLazyRuleAccessors_def spread_def ownKeyOrder_def isArrayIndex_def isDigit_def)
  have 3: "ruleInstances (Suc n) extension_wrapper =
       [(''Wrapper'', node ''Wrapper'' (getRule (createLazyRuleAccessors n extension_wrapper) ''Root''))]"
    by (simp add: createLazyRuleAccessors_def extension_wrapper_def)
  have 4: "map fst (createLazyRuleAccessors n extension_wrapper) = [''Wrapper'']"
    by (simp add: createLazyRuleAccessors_keys extension_wrapper_def)
  have pr: "parse ''a'' (extendGrammar (Suc n) grammar_ab extension_wrapper) root =
      Parser_parse (extendGrammar (Suc n) grammar_ab extension_wrapper)
        [\<lparr>type = ''A'', location = \<lparr>start = 0, end' = 1\<rparr>\<rparr>] ''a'' root" for root
    by (simp only: parse_def tokenize_extendGrammar tokenize_a option.case Result.case)
  have 5: "parse ''a'' (extendGrammar (Suc n) grammar_ab extension_wrapper) ''Root'' =
       Some (Returns (Success
         (AstNode ''Root'' (TokenV \<lparr>type = ''A'', location = \<lparr>start = 0, end' = 1\<rparr>\<rparr>)
            [\<lparr>start = 0, end' = 1\<rparr>])))"
    unfolding pr
    by (simp add: Parser_parse_def
          extendGrammar_def grammar_ab_def extension_wrapper_def createGrammar_def
          createLazyRuleAccessors_def createLazyRuleAccessor_def getRule_def spread_def
          ownKeyOrder_def isArrayIndex_def isDigit_def
          node_def token_def parserHelpers_def withValue_def)
  have 6: "parse ''a'' (extendGrammar (Suc n) grammar_ab extension_wrapper) ''Wrapper'' =
       Some (Throws TypeError)"
    unfolding pr
    by (simp add: Parser_parse_def
          extendGrammar_def grammar_ab_def extension_wrapper_def createGrammar_def
          createLazyRuleAccessors_def createLazyRuleAccessor_def getRule_def spread_def
          ownKeyOrder_def isArrayIndex_def isDigit_def
          node_def token_def parserHelpers_def withValue_def)
  have pr2: "parse ''a'' (grammar_ab_wrapper (Suc (Suc n))) root =
      Parser_parse (grammar_ab_wrapper (Suc (Suc n)))
        [\<lparr>type = ''A'', location = \<lparr>start = 0, end' = 1\<rparr>\<rparr>] ''a'' root" for root
    by (simp only: parse_def tok option.case Result.case)
  have 7: "parse ''a'' (grammar_ab_wrapper (Suc (Suc n))) ''Wrapper'' =
       Some (Returns (Success
         (AstNode ''Wrapper''
            (AstNode ''Root'' (TokenV \<lparr>type = ''A'', location = \<lparr>start = 0, end' = 1\<rparr>\<rparr>)
               [\<lparr>start = 0, end' = 1\<rparr>])
            [\<lparr>start = 0, end' = 1\<rparr>])))"
    unfolding pr2
    by (simp add: Parser_parse_def
          grammar_ab_wrapper_def createGrammar_def
          createLazyRuleAccessors_def createLazyRuleAccessor_def getRule_def
          node_def token_def parserHelpers_def withValue_def)
  have 8: "map_of (rules (extendGrammar n g rs)) =
     map_of (rules g) ++ map_of (rev (createLazyRuleAccessors n rs))"
    by (simp add: extendGrammar_def map_of_spread)
  show ?thesis
    using 1 2 3 4 5 6 7 8 ruleInstances_handle [of n rs] createLazyRuleAccessors_keys [of n rs]
    by blast
qed

text \<open>
  Claim C8. A failure is the error alone: it carries no state. Where a rule fails on
  the state of its caller, \<open>optional\<close> and \<open>zeroOrMore\<close> succeed with the input, the
  source and the index of that state, \<open>choice\<close> calls the next alternative on that
  state, and \<open>oneOrMore\<close>, \<open>sequence\<close>, \<open>map\<close>, \<open>text\<close> and \<open>node\<close> fail with the same
  error. Where the rules \<open>pre\<close> of a sequence succeed one after the other (and may
  advance) and the rule after them fails, whatever rules follow it, the sequence fails
  with that error, and so does the \<open>struct\<close> of these rules; \<open>optional\<close>,
  \<open>zeroOrMore\<close> and \<open>choice\<close> of the sequence go on from the state that the sequence
  was given, and \<open>oneOrMore\<close>, \<open>map\<close>, \<open>text\<close> and \<open>node\<close> of it fail: nothing of the
  progress of the rules before the failure is kept. Where the rule fails in a later
  iteration of \<open>zeroOrMore\<close> or \<open>oneOrMore\<close>, the loop returns the state reached before
  that iteration.
\<close>

theorem failure_commits_no_progress:
  "(rule state helpers = Some (Returns (Error e)) \<longrightarrow>
      optional rule state helpers =
        Some (Returns (Success \<lparr>input = input state, source = source state,
                                  currentIndex = currentIndex state, val = Null, tokens = []\<rparr>))
    \<and> zeroOrMore rule state helpers =
        Some (Returns (Success \<lparr>input = input state, source = source state,
                                  currentIndex = currentIndex state, val = Arr [], tokens = []\<rparr>))
    \<and> (alt state helpers = Some (Returns (Success out))
         \<longrightarrow> choice [rule, alt] state helpers = Some (Returns (Success out)))
    \<and> (alt state helpers = Some (Returns (Error e2))
         \<longrightarrow> choice [rule, alt] state helpers =
             Some (Returns (Error (if start (error_location e) < start (error_location e2)
                                   then e2 else e))))
    \<and> oneOrMore rule state helpers = Some (Returns (Error e))
    \<and> sequence (rule # rest) state helpers = Some (Returns (Error e))
    \<and> map_rule rule transform state helpers = Some (Returns (Error e))
    \<and> text_rule rule state helpers = Some (Returns (Error e))
    \<and> node type' rule state helpers = Some (Returns (Error e)))
   \<and> (succeed_in_turn helpers pre state mid \<and> rule mid helpers = Some (Returns (Error e)) \<longrightarrow>
      sequence (pre @ rule # post) state helpers = Some (Returns (Error e))
    \<and> (map snd preFields = pre
         \<longrightarrow> struct (preFields @ field key rule # postFields) state helpers = Some (Returns (Error e)))
    \<and> optional (sequence (pre @ rule # post)) state helpers =
        Some (Returns (Success \<lparr>input = input state, source = source state,
                                  currentIndex = currentIndex state, val = Null, tokens = []\<rparr>))
    \<and> zeroOrMore (sequence (pre @ rule # post)) state helpers =
        Some (Returns (Success \<lparr>input = input state, source = source state,
                                  currentIndex = currentIndex state, val = Arr [], tokens = []\<rparr>))
    \<and> (alt state helpers = Some (Returns (Success out))
         \<longrightarrow> choice [(sequence (pre @ rule # post)), alt] state helpers = Some (Returns (Success out)))
    \<and> (alt state helpers = Some (Returns (Error e2))
         \<longrightarrow> choice [(sequence (pre @ rule # post)), alt] state helpers =
             Some (Returns (Error (if start (error_location e) < start (error_location e2)
                                   then e2 else e))))
    \<and> oneOrMore (sequence (pre @ rule # post)) state helpers = Some (Returns (Error e))
    \<and> sequence ((sequence (pre @ rule # post)) # rest) state helpers = Some (Returns (Error e))
    \<and> map_rule (sequence (pre @ rule # post)) transform state helpers = Some (Returns (Error e))
    \<and> text_rule (sequence (pre @ rule # post)) state helpers = Some (Returns (Error e))
    \<and> node type' (sequence (pre @ rule # post)) state helpers = Some (Returns (Error e)))
   \<and> (rule (toInput cur) helpers = Some (Returns (Error e)) \<longrightarrow>
      zeroOrMore_loop rule helpers cur vals = Some (Returns (Success (cur\<lparr>val := Arr vals\<rparr>)))
    \<and> oneOrMore_loop rule helpers cur vals = Some (Returns (Success (cur\<lparr>val := Arr vals\<rparr>))))"
proof -
  have A: "optional r state helpers =
        Some (Returns (Success \<lparr>input = input state, source = source state,
                                  currentIndex = currentIndex state, val = Null, tokens = []\<rparr>))
    \<and> zeroOrMore r state helpers =
        Some (Returns (Success \<lparr>input = input state, source = source state,
                                  currentIndex = currentIndex state, val = Arr [], tokens = []\<rparr>))
    \<and> (alt state helpers = Some (Returns (Success out))
         \<longrightarrow> choice [r, alt] state helpers = Some (Returns (Success out)))
    \<and> (alt state helpers = Some (Returns (Error e2))
         \<longrightarrow> choice [r, alt] state helpers =
             Some (Returns (Error (if start (error_location e) < start (error_location e2)
                                   then e2 else e))))
    \<and> oneOrMore r state helpers = Some (Returns (Error e))
    \<and> sequence (r # rest) state helpers = Some (Returns (Error e))
    \<and> map_rule r transform state helpers = Some (Returns (Error e))
    \<and> text_rule r state helpers = Some (Returns (Error e))
    \<and> node type' r state helpers = Some (Returns (Error e))"
    if f: "r state helpers = Some (Returns (Error e))" for r
  proof -
    have 1: "optional r state helpers =
        Some (Returns (Success \<lparr>input = input state, source = source state,
                                  currentIndex = currentIndex state, val = Null, tokens = []\<rparr>))"
      using f by (simp add: optional_def callers_state)
    have 2: "zeroOrMore r state helpers =
        Some (Returns (Success \<lparr>input = input state, source = source state,
                                  currentIndex = currentIndex state, val = Arr [], tokens = []\<rparr>))"
    proof -
      have "zeroOrMore r state helpers =
          Some (Returns (Success ((withValue state Null [])\<lparr>val := Arr []\<rparr>)))"
        using f by (simp add: zeroOrMore_def zeroOrMore_loop.simps [of r])
      then show ?thesis by (simp add: withValue_def)
    qed
    have 3: "alt state helpers = Some (Returns (Success out))
         \<longrightarrow> choice [r, alt] state helpers = Some (Returns (Success out))"
      using f by (simp add: choice_def)
    have 4: "alt state helpers = Some (Returns (Error e2))
         \<longrightarrow> choice [r, alt] state helpers =
             Some (Returns (Error (if start (error_location e) < start (error_location e2)
                                   then e2 else e)))"
      using f by (simp add: choice_def Let_def)
    have 5: "oneOrMore r state helpers = Some (Returns (Error e))"
      using f by (simp add: oneOrMore_def)
    have 6: "sequence (r # rest) state helpers = Some (Returns (Error e))"
      using f by (simp add: sequence_def)
    have 7: "map_rule r transform state helpers = Some (Returns (Error e))"
      using f by (simp add: map_rule_def)
    have 8: "text_rule r state helpers = Some (Returns (Error e))"
      using f by (simp add: text_rule_def)
    have 9: "node type' r state helpers = Some (Returns (Error e))"
      using f by (simp add: node_def)
    show ?thesis using 1 2 3 4 5 6 7 8 9 by blast
  qed
  have B: "sequence (pre @ rule # post) state helpers = Some (Returns (Error e))"
    if "succeed_in_turn helpers pre state mid" "rule mid helpers = Some (Returns (Error e))"
    using that by (rule sequence_fails_after)
  have S: "struct (preFields @ field key rule # postFields) state helpers = Some (Returns (Error e))"
    if "succeed_in_turn helpers pre state mid" "rule mid helpers = Some (Returns (Error e))"
       "map snd preFields = pre"
  proof -
    from that(1,2) have "sequence (pre @ rule # map snd postFields) state helpers = Some (Returns (Error e))"
      by (rule sequence_fails_after)
    with that(3) show ?thesis by (simp add: struct_def field_def map_rule_def)
  qed
  have C: "zeroOrMore_loop rule helpers cur vals = Some (Returns (Success (cur\<lparr>val := Arr vals\<rparr>)))
    \<and> oneOrMore_loop rule helpers cur vals = Some (Returns (Success (cur\<lparr>val := Arr vals\<rparr>)))"
    if "rule (toInput cur) helpers = Some (Returns (Error e))"
    using that by (simp add: zeroOrMore_loop.simps [of rule] oneOrMore_loop.simps [of rule])
  show ?thesis
    using A [of rule] A [of "sequence (pre @ rule # post)"] B S C by blast
qed

text \<open>
  The theorem on the token stream of \<open>bbc\<close>: \<open>A\<close> fails at index 0, and the sequence
  and the struct of \<open>B\<close>, \<open>B\<close>, \<open>C\<close>, \<open>A\<close> fail at the end of the input after three
  tokens have matched; \<open>optional\<close>, \<open>zeroOrMore\<close> and \<open>choice\<close> go on from index 0.
\<close>

theorem failure_commits_no_progress_witness:
  "optional (token ''A'') state_bbc helpers_bbc =
     Some (Returns (Success \<lparr>input = input_bbc, source = ''bbc'', currentIndex = 0,
                               val = Null, tokens = []\<rparr>))
   \<and> zeroOrMore (token ''A'') state_bbc helpers_bbc =
     Some (Returns (Success \<lparr>input = input_bbc, source = ''bbc'', currentIndex = 0,
                               val = Arr [], tokens = []\<rparr>))
   \<and> choice [token ''A'', token ''B''] state_bbc helpers_bbc =
     Some (Returns (Success \<lparr>input = input_bbc, source = ''bbc'', currentIndex = 1,
                               val = TokenV \<lparr>type = ''B'', location = \<lparr>start = 0, end' = 1\<rparr>\<rparr>,
                               tokens = [\<lparr>type = ''B'', location = \<lparr>start = 0, end' = 1\<rparr>\<rparr>]\<rparr>))
   \<and> succeed_in_turn helpers_bbc [token ''B'', token ''B'', token ''C''] state_bbc
       \<lparr>input = input_bbc, source = ''bbc'', currentIndex = 3\<rparr>
   \<and> sequence [token ''B'', token ''B'', token ''C'', token ''A''] state_bbc helpers_bbc =
     Some (Returns (Error (ParserRuleError ''Expected token: A'' \<lparr>start = 3, end' = 3\<rparr>)))
   \<and> struct [field (Some ''x'') (token ''B''), field None (token ''B''), field (Some ''y'') (token ''C''),
              field (Some ''z'') (token ''A'')] state_bbc helpers_bbc =
     Some (Returns (Error (ParserRuleError ''Expected token: A'' \<lparr>start = 3, end' = 3\<rparr>)))
   \<and> optional (sequence [token ''B'', token ''B'', token ''C'', token ''A'']) state_bbc helpers_bbc =
     Some (Returns (Success \<lparr>input = input_bbc, source = ''bbc'', currentIndex = 0,
                               val = Null, tokens = []\<rparr>))
   \<and> zeroOrMore (sequence [token ''B'', token ''B'', token ''C'', token ''A'']) state_bbc helpers_bbc =
     Some (Returns (Success \<lparr>input = input_bbc, source = ''bbc'', currentIndex = 0,
                               val = Arr [], tokens = []\<rparr>))
   \<and> choice [sequence [token ''B'', token ''B'', token ''C'', token ''A''], token ''B'']
       state_bbc helpers_bbc =
     Some (Returns (Success \<lparr>input = input_bbc, source = ''bbc'', currentIndex = 1,
                               val = TokenV \<lparr>type = ''B'', location = \<lparr>start = 0, end' = 1\<rparr>\<rparr>,
                               tokens = [\<lparr>type = ''B'', location = \<lparr>start = 0, end' = 1\<rparr>\<rparr>]\<rparr>))
   \<and> zeroOrMore (token ''A'') (toInput
         \<lparr>input = input_bbc, source = ''bbc'', currentIndex = 1,
          val = TokenV \<lparr>type = ''B'', location = \<lparr>start = 0, end' = 1\<rparr>\<rparr>,
          tokens = [\<lparr>type = ''B'', location = \<lparr>start = 0, end' = 1\<rparr>\<rparr>]\<rparr>) helpers_bbc =
     Some (Returns (Success \<lparr>input = input_bbc, source = ''bbc'', currentIndex = 1,
                               val = Arr [], tokens = []\<rparr>))"
proof -
  let ?b = "\<lparr>input = input_bbc, source = ''bbc'', currentIndex = 1,
             val = TokenV \<lparr>type = ''B'', location = \<lparr>start = 0, end' = 1\<rparr>\<rparr>,
             tokens = [\<lparr>type = ''B'', location = \<lparr>start = 0, end' = 1\<rparr>\<rparr>]\<rparr>"
  let ?b2 = "\<lparr>input = input_bbc, source = ''bbc'', currentIndex = 2,
             val = TokenV \<lparr>type = ''B'', location = \<lparr>start = 1, end' = 2\<rparr>\<rparr>,
             tokens = [\<lparr>type = ''B'', location = \<lparr>start = 1, end' = 2\<rparr>\<rparr>]\<rparr>"
  let ?c3 = "\<lparr>input = input_bbc, source = ''bbc'', currentIndex = 3,
             val = TokenV \<lparr>type = ''C'', location = \<lparr>start = 2, end' = 3\<rparr>\<rparr>,
             tokens = [\<lparr>type = ''C'', location = \<lparr>start = 2, end' = 3\<rparr>\<rparr>]\<rparr>"
  let ?mid = "\<lparr>input = input_bbc, source = ''bbc'', currentIndex = 3\<rparr>"
  let ?pre = "[token ''B'', token ''B'', token ''C'']"
  let ?eA = "ParserRuleError ''Expected token: A'' \<lparr>start = 3, end' = 3\<rparr>"
  let ?sq = "sequence [token ''B'', token ''B'', token ''C'', token ''A'']"
  have sel: "input state_bbc = input_bbc" "source state_bbc = ''bbc''" "currentIndex state_bbc = 0"
    by (simp_all add: state_bbc_def)
  have a0: "token ''A'' state_bbc helpers_bbc =
      Some (Returns (Error (ParserRuleError ''Expected token: A'' \<lparr>start = 0, end' = 1\<rparr>)))"
    by (simp add: ex_defs)
  have b0: "token ''B'' state_bbc helpers_bbc = Some (Returns (Success ?b))"
    by (simp add: ex_defs)
  have b1: "token ''B'' (toInput ?b) helpers_bbc = Some (Returns (Success ?b2))"
    by (simp add: ex_defs)
  have c2: "token ''C'' (toInput ?b2) helpers_bbc = Some (Returns (Success ?c3))"
    by (simp add: ex_defs)
  have m: "toInput ?c3 = ?mid" by (simp add: toInput_def)
  have a1: "token ''A'' (toInput ?b) helpers_bbc =
      Some (Returns (Error (ParserRuleError ''Expected token: A'' \<lparr>start = 1, end' = 2\<rparr>)))"
    by (simp add: ex_defs)
  have a3: "token ''A'' ?mid helpers_bbc = Some (Returns (Error ?eA))"
    by (simp add: ex_defs)
  have t3: "succeed_in_turn helpers_bbc [] (toInput ?c3) (toInput ?c3)"
    by (rule succeed_in_turn.none_left)
  have t2: "succeed_in_turn helpers_bbc [token ''C''] (toInput ?b2) (toInput ?c3)"
    using c2 t3 by (rule succeed_in_turn.next_rule)
  have t1: "succeed_in_turn helpers_bbc [token ''B'', token ''C''] (toInput ?b) (toInput ?c3)"
    using b1 t2 by (rule succeed_in_turn.next_rule)
  have "succeed_in_turn helpers_bbc ?pre state_bbc (toInput ?c3)"
    using b0 t1 by (rule succeed_in_turn.next_rule)
  then have turn: "succeed_in_turn helpers_bbc ?pre state_bbc ?mid"
    by (simp only: m)
  have app: "?pre @ token ''A'' # [] = [token ''B'', token ''B'', token ''C'', token ''A'']"
    by simp
  have flds: "map snd [field (Some ''x'') (token ''B''), field None (token ''B''),
                       field (Some ''y'') (token ''C'')] = ?pre"
    "[field (Some ''x'') (token ''B''), field None (token ''B''), field (Some ''y'') (token ''C'')]
       @ field (Some ''z'') (token ''A'') # [] =
     [field (Some ''x'') (token ''B''), field None (token ''B''), field (Some ''y'') (token ''C''),
      field (Some ''z'') (token ''A'')]"
    by (simp_all add: field_def)
  note first = failure_commits_no_progress [where rule = "token ''A''" and state = state_bbc and helpers = helpers_bbc
      and e = "ParserRuleError ''Expected token: A'' \<lparr>start = 0, end' = 1\<rparr>"
      and alt = "token ''B''" and out = ?b]
  note second = failure_commits_no_progress [where rule = "token ''A''" and state = state_bbc and helpers = helpers_bbc
      and e = ?eA and pre = ?pre and mid = ?mid and post = "[]"
      and preFields = "[field (Some ''x'') (token ''B''), field None (token ''B''), field (Some ''y'') (token ''C'')]"
      and key = "Some ''z''" and postFields = "[]"
      and alt = "token ''B''" and out = ?b and ?e2.0 = ?eA and rest = "[]" and transform = id
      and type' = "''N''" and cur = "withValue state_bbc Null []" and vals = "[]",
      THEN conjunct2, THEN conjunct1, THEN mp, OF conjI [OF turn a3], unfolded app flds(2)]
  have 1: "optional (token ''A'') state_bbc helpers_bbc =
     Some (Returns (Success \<lparr>input = input_bbc, source = ''bbc'', currentIndex = 0,
                               val = Null, tokens = []\<rparr>))"
    using first a0 sel by metis
  have 2: "zeroOrMore (token ''A'') state_bbc helpers_bbc =
     Some (Returns (Success \<lparr>input = input_bbc, source = ''bbc'', currentIndex = 0,
                               val = Arr [], tokens = []\<rparr>))"
    using first a0 sel by metis
  have 3: "choice [token ''A'', token ''B''] state_bbc helpers_bbc = Some (Returns (Success ?b))"
    using first a0 b0 by blast
  have 4: "?sq state_bbc helpers_bbc = Some (Returns (Error ?eA))"
    using second by blast
  have st: "struct [field (Some ''x'') (token ''B''), field None (token ''B''), field (Some ''y'') (token ''C''),
              field (Some ''z'') (token ''A'')] state_bbc helpers_bbc = Some (Returns (Error ?eA))"
    using second flds(1) by blast
  have 5: "optional ?sq state_bbc helpers_bbc =
     Some (Returns (Success \<lparr>input = input_bbc, source = ''bbc'', currentIndex = 0,
                               val = Null, tokens = []\<rparr>))"
    using second sel by metis
  have 6: "zeroOrMore ?sq state_bbc helpers_bbc =
     Some (Returns (Success \<lparr>input = input_bbc, source = ''bbc'', currentIndex = 0,
                               val = Arr [], tokens = []\<rparr>))"
    using second sel by metis
  have 7: "choice [?sq, token ''B''] state_bbc helpers_bbc = Some (Returns (Success ?b))"
    using second b0 by blast
  have "zeroOrMore_loop (token ''A'') helpers_bbc (withValue (toInput ?b) Null []) [] =
      Some (Returns (Success ((withValue (toInput ?b) Null [])\<lparr>val := Arr []\<rparr>)))"
    using failure_commits_no_progress [where rule = "token ''A''" and helpers = helpers_bbc
      and e = "ParserRuleError ''Expected token: A'' \<lparr>start = 1, end' = 2\<rparr>"
      and cur = "withValue (toInput ?b) Null []" and vals = "[]"] a1
    by simp
  then have 8: "zeroOrMore (token ''A'') (toInput ?b) helpers_bbc =
     Some (Returns (Success \<lparr>input = input_bbc, source = ''bbc'', currentIndex = 1,
                               val = Arr [], tokens = []\<rparr>))"
    by (simp add: zeroOrMore_def withValue_def toInput_def)
  show ?thesis using 1 2 3 turn 4 st 5 6 7 8 by blast
qed

end
